theory Spec2Isabelle
  imports Main
begin

section \<open>Values and failures\<close>

text \<open>
  The program is \<^verbatim>\<open>kcidev/subcommands/results.py\<close>. Decoded JSON bodies are Python
  values built from dictionaries, lists, strings, numbers, booleans and \<^verbatim>\<open>None\<close>.
  A dictionary is kept as the list of its items. The payload of a number plays no part in
  any operation below.
\<close>

datatype json =
    JNull
  | JBool bool
  | JNum int
  | JStr string
  | JArr "json list"
  | JObj "(string \<times> json) list"

text \<open>
  Every \<^verbatim>\<open>raise click.Abort()\<close> of the file is one constructor of \<open>abort_site\<close>, named
  after the message printed just before it. Python exceptions that no handler of the file
  catches are \<open>Raised\<close>.
\<close>

datatype abort_site =
    Failed_after_retries        \<comment> \<open>line 39: "Failed after N retries with 500 error."\<close>
  | Failed_to_fetch             \<comment> \<open>line 51: "Failed to fetch from ..."\<close>
  | Json_error                  \<comment> \<open>line 46: "json error: ..."\<close>
  | Unexpected_failure          \<comment> \<open>line 54: "Unexpected failure in API request"\<close>
  | Not_a_folder                \<comment> \<open>line 150: "Not a folder"\<close>
  | Not_a_GIT_folder            \<comment> \<open>line 190: "Not a GIT folder"\<close>
  | Tree_and_branch_not_found   \<comment> \<open>line 200: "Tree and branch not found."\<close>

datatype py_exception =
    TypeError
  | KeyError
  | ValueError
  | NoSectionError
  | NoOptionError
  | ConfigParserError   \<comment> \<open>any other \<^verbatim>\<open>configparser.Error\<close>\<close>

datatype error = Abort abort_site | Raised py_exception

section \<open>Python operators on decoded values\<close>

fun starts_with :: "string \<Rightarrow> string \<Rightarrow> bool" where
  "starts_with [] ys = True"
| "starts_with (x # xs) [] = False"
| "starts_with (x # xs) (y # ys) = (x = y \<and> starts_with xs ys)"

text \<open>\<^verbatim>\<open>needle in haystack\<close> for two strings: a contiguous occurrence.\<close>

fun is_substring :: "string \<Rightarrow> string \<Rightarrow> bool" where
  "is_substring xs [] = (xs = [])"
| "is_substring xs (y # ys) = (starts_with xs (y # ys) \<or> is_substring xs ys)"

text \<open>
  \<^verbatim>\<open>key in data\<close> for a string \<open>key\<close>: key membership for a dictionary, element
  membership for a list, substring test for a string, and \<^verbatim>\<open>TypeError\<close> (argument is
  not iterable) for numbers, booleans and \<^verbatim>\<open>None\<close>.
\<close>

fun str_in :: "string \<Rightarrow> json \<Rightarrow> error + bool" where
  "str_in k (JObj kvs) = Inr (k \<in> set (map fst kvs))"
| "str_in k (JArr xs) = Inr (JStr k \<in> set xs)"
| "str_in k (JStr s) = Inr (is_substring k s)"
| "str_in k JNull = Inl (Raised TypeError)"
| "str_in k (JBool b) = Inl (Raised TypeError)"
| "str_in k (JNum n) = Inl (Raised TypeError)"

text \<open>
  \<^verbatim>\<open>t[key]\<close> for a string key: the value of a dictionary, \<^verbatim>\<open>KeyError\<close> when the key
  is missing, \<^verbatim>\<open>TypeError\<close> for every other value.
\<close>

fun subscript :: "json \<Rightarrow> string \<Rightarrow> error + json" where
  "subscript (JObj kvs) k = (case map_of kvs k of None \<Rightarrow> Inl (Raised KeyError) | Some v \<Rightarrow> Inr v)"
| "subscript JNull k = Inl (Raised TypeError)"
| "subscript (JBool b) k = Inl (Raised TypeError)"
| "subscript (JNum n) k = Inl (Raised TypeError)"
| "subscript (JStr s) k = Inl (Raised TypeError)"
| "subscript (JArr xs) k = Inl (Raised TypeError)"

section \<open>The retrying fetch client\<close>

text \<open>
  One call of \<^verbatim>\<open>requests.get(url)\<close> either raises a \<^verbatim>\<open>RequestException\<close> (DNS,
  connection, timeout) or gives a response with a status code and a body; the body is
  \<open>None\<close> when \<^verbatim>\<open>r.json()\<close> cannot decode it.
\<close>

datatype attempt =
    Transport_failure
  | Response (status_code: int) (body: "json option")

definition RETRY_STATUS_CODES :: "int list" where
  "RETRY_STATUS_CODES = [429, 500, 502, 503, 504, 507]"

text \<open>
  \<^verbatim>\<open>Response.raise_for_status()\<close> of the requests library raises \<^verbatim>\<open>HTTPError\<close>, a
  \<^verbatim>\<open>RequestException\<close>, for a 4xx client error and for a 5xx server error, and for no
  other status.
\<close>

definition raise_for_status :: "int \<Rightarrow> bool" where
  "raise_for_status status \<longleftrightarrow> 400 \<le> status \<and> status < 600"

text \<open>
  The \<^verbatim>\<open>while retries <= max_retries\<close> loop of \<^verbatim>\<open>dashboard_api_fetch\<close>. The
  argument \<open>get\<close> gives the outcome of the \<open>n\<close>-th call of \<^verbatim>\<open>requests.get(url)\<close>
  made by this invocation (counted from 0); the result carries the number of calls made.
  \<^verbatim>\<open>r.json()\<close> failing raises the library's \<^verbatim>\<open>JSONDecodeError\<close>, a
  \<^verbatim>\<open>RequestException\<close>, which the handler of line 50 turns into an abort; a
  \<^verbatim>\<open>TypeError\<close> of \<^verbatim>\<open>"error" in data\<close> is not caught. Nor is the
  \<^verbatim>\<open>TypeError\<close> of \<^verbatim>\<open>data["error"]\<close> in line 46, which is evaluated for the message
  before the abort: a list or a string can hold \<^verbatim>\<open>"error"\<close> and has no such entry.
\<close>

function fetch_loop :: "(nat \<Rightarrow> attempt) \<Rightarrow> int \<Rightarrow> int \<Rightarrow> nat \<Rightarrow> (error + json) \<times> nat" where
  "fetch_loop get max_retries retries n =
     (if retries \<le> max_retries then
        (case get n of
           Transport_failure \<Rightarrow> (Inl (Abort Failed_to_fetch), Suc n)
         | Response code content \<Rightarrow>
             if code \<in> set RETRY_STATUS_CODES then
               (if retries + 1 \<le> max_retries
                then fetch_loop get max_retries (retries + 1) (Suc n)
                else (Inl (Abort Failed_after_retries), Suc n))
             else if raise_for_status code then (Inl (Abort Failed_to_fetch), Suc n)
             else
               (case content of
                  None \<Rightarrow> (Inl (Abort Failed_to_fetch), Suc n)
                | Some data \<Rightarrow>
                    (case str_in ''error'' data of
                       Inl e \<Rightarrow> (Inl e, Suc n)
                     | Inr True \<Rightarrow>
                         (case subscript data ''error'' of
                            Inl e \<Rightarrow> (Inl e, Suc n)
                          | Inr message \<Rightarrow> (Inl (Abort Json_error), Suc n))
                     | Inr False \<Rightarrow> (Inr data, Suc n))))
      else (Inl (Abort Unexpected_failure), n))"
  by pat_completeness auto
termination
  by (relation "measure (\<lambda>(get, max_retries, retries, n). nat (max_retries - retries))") auto

declare fetch_loop.simps [simp del]

text \<open>
  The request URL is \<^verbatim>\<open>urljoin(DASHBOARD_API, endpoint) + "?" + urlencode(params)\<close>; it is
  kept as the pair of the endpoint and the ordered parameters it is built from.
\<close>

type_synonym url = "string \<times> (string \<times> string) list"

text \<open>The network: what the \<open>n\<close>-th \<^verbatim>\<open>requests.get\<close> of one fetch of a URL yields.\<close>

type_synonym network = "url \<Rightarrow> nat \<Rightarrow> attempt"

definition dashboard_api_fetch ::
  "network \<Rightarrow> string \<Rightarrow> (string \<times> string) list \<Rightarrow> int \<Rightarrow> error + json" where
  "dashboard_api_fetch net endpoint params max_retries =
     fst (fetch_loop (net (endpoint, params)) max_retries 0 0)"

text \<open>The number of \<^verbatim>\<open>requests.get\<close> calls one \<^verbatim>\<open>dashboard_api_fetch\<close> makes.\<close>

definition requests_made ::
  "network \<Rightarrow> string \<Rightarrow> (string \<times> string) list \<Rightarrow> int \<Rightarrow> nat" where
  "requests_made net endpoint params max_retries =
     snd (fetch_loop (net (endpoint, params)) max_retries 0 0)"

text \<open>An attempt whose response status is in \<^verbatim>\<open>RETRY_STATUS_CODES\<close>.\<close>

definition is_retryable :: "attempt \<Rightarrow> bool" where
  "is_retryable a =
     (case a of Transport_failure \<Rightarrow> False | Response c b \<Rightarrow> c \<in> set RETRY_STATUS_CODES)"

section \<open>Records of the results API\<close>

text \<open>
  A test or boot entry of the API, with the keys the file reads. The hardware filter reads
  \<^verbatim>\<open>test["misc"]["platform"]\<close>, the renderers read
  \<^verbatim>\<open>test["environment_misc"]["platform"]\<close>; both are kept.
  \<^verbatim>\<open>environment_compatible\<close> is a list or \<^verbatim>\<open>None\<close>.
\<close>

record test =
  t_path :: string
  t_status :: string
  t_misc_platform :: string
  t_environment_misc_platform :: string
  t_environment_compatible :: "string list option"
  t_config :: string
  t_architecture :: string
  t_compiler :: string
  t_log_url :: string
  t_start_time :: string
  t_id :: string

text \<open>A build entry; \<^verbatim>\<open>valid\<close> is \<^verbatim>\<open>true\<close>, \<^verbatim>\<open>false\<close> or \<^verbatim>\<open>null\<close>.\<close>

record build =
  b_config_name :: string
  b_architecture :: string
  b_compiler :: string
  b_valid :: "bool option"
  b_config_url :: string
  b_log_url :: string
  b_id :: string

text \<open>The dictionaries built by \<^verbatim>\<open>create_test_json\<close> and \<^verbatim>\<open>create_build_json\<close>.\<close>

record test_json =
  tj_test_path :: string
  tj_hardware :: string
  tj_compatibles :: "string list option"
  tj_config :: string
  tj_arch :: string
  tj_status :: string
  tj_start_time :: string
  tj_log :: string
  tj_id :: string
  tj_dashboard :: string

record build_json =
  bj_config :: string
  bj_arch :: string
  bj_compiler :: string
  bj_status :: string
  bj_config_url :: string
  bj_log :: string
  bj_id :: string
  bj_dashboard :: string

text \<open>
  What the program prints and writes, in order. The printing functions
  \<^verbatim>\<open>kci_msg\<close>, \<^verbatim>\<open>kci_err\<close> and their coloured variants come from
  \<^verbatim>\<open>kcidev.libs.common\<close>; each call is one event.
\<close>

datatype event =
    Kci_msg string
  | Kci_msg_nonl string
  | Kci_msg_cyan_nonl string
  | Kci_msg_green_nonl string
  | Kci_msg_red_nonl string
  | Kci_msg_yellow_nonl string
  | Kci_err string
  | Kci_msg_count nat                     \<comment> \<open>\<^verbatim>\<open>kci_msg(filtered_tests)\<close>\<close>
  | Kci_msg_count_json nat                \<comment> \<open>\<^verbatim>\<open>kci_msg(f'{{"count":{filtered_tests}}}')\<close>\<close>
  | Kci_msg_tests_json "test_json list"   \<comment> \<open>\<^verbatim>\<open>kci_msg(json.dumps(tests))\<close>\<close>
  | Kci_msg_builds_json "build_json list" \<comment> \<open>\<^verbatim>\<open>kci_msg(json.dumps(builds))\<close>\<close>
  | File_written string string            \<comment> \<open>name and content of a file written\<close>


definition create_test_json :: "test \<Rightarrow> string \<Rightarrow> test_json" where
  "create_test_json t log_path =
     \<lparr> tj_test_path = t_path t,
       tj_hardware = t_environment_misc_platform t,
       tj_compatibles = t_environment_compatible t,
       tj_config = t_config t,
       tj_arch = t_architecture t,
       tj_status =
         (if t_status t = ''PASS'' then ''PASS''
          else if t_status t = ''FAIL'' then ''FAIL''
          else ''INCONCLUSIVE (status: '' @ t_status t @ '')''),
       tj_start_time = t_start_time t,
       tj_log = log_path,
       tj_id = t_id t,
       tj_dashboard = ''https://dashboard.kernelci.org/build/'' @ t_id t \<rparr>"

section \<open>Filters\<close>

text \<open>\<^verbatim>\<open>str.lower()\<close> on ASCII text: the letters A to Z move to a to z.\<close>

definition lower_char :: "char \<Rightarrow> char" where
  "lower_char c =
     (case map_of (zip ''ABCDEFGHIJKLMNOPQRSTUVWXYZ'' ''abcdefghijklmnopqrstuvwxyz'') c of
        None \<Rightarrow> c
      | Some l \<Rightarrow> l)"

definition lower :: "string \<Rightarrow> string" where
  "lower s = map lower_char s"

definition filter_out_by_status :: "string \<Rightarrow> string \<Rightarrow> bool" where
  "filter_out_by_status status filt =
     (if filt = ''all'' then False
      else if filt = lower status then False
      else if filt = ''inconclusive'' \<and>
              status \<in> set [''ERROR'', ''SKIP'', ''MISS'', ''DONE'', ''NULL''] then False
      else True)"

text \<open>
  The document loaded from the filter file by \<^verbatim>\<open>yaml.safe_load\<close>: a mapping from keys
  to lists of strings, kept as its items. \<^verbatim>\<open>filter_data["hardware"]\<close> raises
  \<^verbatim>\<open>KeyError\<close> when the key is missing.
\<close>

type_synonym filter_data = "(string \<times> string list) list"

definition filter_out_by_hardware :: "test \<Rightarrow> filter_data \<Rightarrow> error + bool" where
  "filter_out_by_hardware t fd =
     (case map_of fd ''hardware'' of
        None \<Rightarrow> Inl (Raised KeyError)
      | Some hardware_list \<Rightarrow>
          Inr (if t_misc_platform t \<in> set hardware_list then False
               else
                 (case t_environment_compatible t of
                    None \<Rightarrow> True
                  | Some compatibles \<Rightarrow> \<not> (\<exists>compatible \<in> set compatibles. compatible \<in> set hardware_list))))"

definition filter_out_by_test :: "test \<Rightarrow> filter_data \<Rightarrow> error + bool" where
  "filter_out_by_test t fd =
     (case map_of fd ''test'' of
        None \<Rightarrow> Inl (Raised KeyError)
      | Some test_list \<Rightarrow> Inr (if t_path t \<in> set test_list then False else True))"

section \<open>Log retrieval\<close>

text \<open>\<^verbatim>\<open>os.path.join(a, b)\<close> on POSIX.\<close>

definition os_path_join :: "string \<Rightarrow> string \<Rightarrow> string" where
  "os_path_join a b =
     (if starts_with ''/'' b then b
      else if a = [] \<or> last a = CHR ''/'' then a @ b
      else a @ ''/'' @ b)"

text \<open>
  The surroundings of a log download: the content \<^verbatim>\<open>requests.get(url).content\<close>
  (\<open>None\<close> when the call raises), \<^verbatim>\<open>gzip.decompress\<close> (\<open>None\<close> when it raises),
  whether opening and writing a file of a given name succeeds, and \<^verbatim>\<open>os.getcwd()\<close>.
\<close>

record world =
  requests_get_content :: "string \<Rightarrow> string option"
  gzip_decompress :: "string \<Rightarrow> string option"
  write_ok :: "string \<Rightarrow> bool"
  os_getcwd :: string

text \<open>
  Lines 445 to 456 of \<^verbatim>\<open>cmd_tests\<close>: the \<^verbatim>\<open>try\<close> block with its bare
  \<^verbatim>\<open>except:\<close>, which prints with \<^verbatim>\<open>kci_err\<close> and goes on. The result is the value
  of \<^verbatim>\<open>log_path\<close> after the block and the events of the block.
\<close>

definition test_log_file :: "string \<Rightarrow> test \<Rightarrow> string" where
  "test_log_file commit t =
     t_misc_platform t @ ''__'' @ t_path t @ ''__'' @ t_config t @ ''-'' @
     t_architecture t @ ''-'' @ t_compiler t @ ''-'' @ commit @ ''.log''"

definition download_test_log :: "world \<Rightarrow> string \<Rightarrow> test \<Rightarrow> string \<times> event list" where
  "download_test_log w commit t =
     (let failed = (t_log_url t, [Kci_err (''Failed to fetch log '' @ t_log_url t @ ''.'')]) in
      case requests_get_content w (t_log_url t) of
        None \<Rightarrow> failed
      | Some log_gz \<Rightarrow>
          (case gzip_decompress w log_gz of
             None \<Rightarrow> failed
           | Some log \<Rightarrow>
               (let log_file = test_log_file commit t in
                if write_ok w log_file
                then (''file://'' @ os_path_join (os_getcwd w) log_file,
                      [File_written log_file log])
                else failed)))"



section \<open>Listing tests and boots\<close>

fun str_join :: "string \<Rightarrow> string list \<Rightarrow> string" where
  "str_join sep [] = []"
| "str_join sep [x] = x"
| "str_join sep (x # y # ys) = x @ sep @ str_join sep (y # ys)"

text \<open>Lines 462 to 496: the text printed for one test.\<close>

definition print_test :: "test \<Rightarrow> string \<Rightarrow> event list" where
  "print_test t log_path =
     [Kci_msg_nonl ''- test path: '', Kci_msg_cyan_nonl (t_path t), Kci_msg [],
      Kci_msg_nonl ''  hardware: '', Kci_msg_cyan_nonl (t_environment_misc_platform t),
      Kci_msg []] @
     (case t_environment_compatible t of
        None \<Rightarrow> []
      | Some compatibles \<Rightarrow>
          if compatibles = [] then []
          else [Kci_msg_nonl ''  compatibles: '',
                Kci_msg_cyan_nonl (str_join '' | '' compatibles), Kci_msg []]) @
     [Kci_msg_nonl ''  config: '', Kci_msg_cyan_nonl (t_config t),
      Kci_msg_nonl '' arch: '', Kci_msg_cyan_nonl (t_architecture t),
      Kci_msg_nonl '' compiler: '', Kci_msg_cyan_nonl (t_compiler t), Kci_msg [],
      Kci_msg_nonl ''  status:'',
      (if t_status t = ''PASS'' then Kci_msg_green_nonl ''PASS''
       else if t_status t = ''FAIL'' then Kci_msg_red_nonl ''FAIL''
       else Kci_msg_yellow_nonl (''INCONCLUSIVE (status: '' @ t_status t @ '')'')),
      Kci_msg [],
      Kci_msg (''  log: '' @ log_path),
      Kci_msg (''  start time: '' @ t_start_time t),
      Kci_msg (''  id: '' @ t_id t),
      Kci_msg (''  dashboard: https://dashboard.kernelci.org/test/'' @ t_id t),
      Kci_msg []]"

text \<open>The variables the loop of \<^verbatim>\<open>cmd_tests\<close> updates, and what it has printed.\<close>

record tests_acc =
  ta_events :: "event list"
  filtered_tests :: nat
  tests :: "test_json list"

text \<open>
  The \<^verbatim>\<open>for test in data\<close> loop. \<open>filter_data\<close> is \<open>None\<close> when no filter file is given
  (or the file is empty, where \<^verbatim>\<open>yaml.safe_load\<close> returns \<^verbatim>\<open>None\<close>); a mapping is
  true in \<^verbatim>\<open>filter_data and ...\<close> when it has at least one key.
\<close>

definition truthy_filter :: "filter_data option \<Rightarrow> bool" where
  "truthy_filter filter_data = (case filter_data of None \<Rightarrow> False | Some fd \<Rightarrow> fd \<noteq> [])"

text \<open>Lines 445 to 456: \<^verbatim>\<open>log_path\<close> and the events of the download, if one is asked for.\<close>

definition test_log :: "world \<Rightarrow> string \<Rightarrow> bool \<Rightarrow> test \<Rightarrow> string \<times> event list" where
  "test_log w commit download_logs t =
     (if download_logs then download_test_log w commit t else (t_log_url t, []))"

text \<open>Lines 445 to 496: what the loop does with a test that no filter has skipped.\<close>

definition cmd_tests_body ::
  "world \<Rightarrow> string \<Rightarrow> bool \<Rightarrow> bool \<Rightarrow> bool \<Rightarrow> tests_acc \<Rightarrow> test \<Rightarrow> tests_acc" where
  "cmd_tests_body w commit download_logs count use_json acc t =
     (let (log_path, evs) = test_log w commit download_logs t;
          acc1 = acc\<lparr>ta_events := ta_events acc @ evs\<rparr>
      in if count then acc1\<lparr>filtered_tests := filtered_tests acc1 + 1\<rparr>
         else if use_json then acc1\<lparr>tests := tests acc1 @ [create_test_json t log_path]\<rparr>
         else acc1\<lparr>ta_events := ta_events acc1 @ print_test t log_path\<rparr>)"

fun cmd_tests_loop ::
  "world \<Rightarrow> string \<Rightarrow> bool \<Rightarrow> string \<Rightarrow> filter_data option \<Rightarrow> bool \<Rightarrow> bool \<Rightarrow>
   test list \<Rightarrow> tests_acc \<Rightarrow> error + tests_acc" where
  "cmd_tests_loop w commit download_logs status_filter filter_data count use_json [] acc = Inr acc"
| "cmd_tests_loop w commit download_logs status_filter filter_data count use_json (t # ts) acc =
     (if filter_out_by_status (t_status t) status_filter
      then cmd_tests_loop w commit download_logs status_filter filter_data count use_json ts acc
      else
        (case (if truthy_filter filter_data then filter_out_by_hardware t (the filter_data)
               else Inr False) of
           Inl e \<Rightarrow> Inl e
         | Inr True \<Rightarrow>
             cmd_tests_loop w commit download_logs status_filter filter_data count use_json ts acc
         | Inr False \<Rightarrow>
             (case (if truthy_filter filter_data then filter_out_by_test t (the filter_data)
                    else Inr False) of
                Inl e \<Rightarrow> Inl e
              | Inr True \<Rightarrow>
                  cmd_tests_loop w commit download_logs status_filter filter_data count use_json
                    ts acc
              | Inr False \<Rightarrow>
                  cmd_tests_loop w commit download_logs status_filter filter_data count use_json
                    ts (cmd_tests_body w commit download_logs count use_json acc t))))"

definition cmd_tests ::
  "world \<Rightarrow> test list \<Rightarrow> string \<Rightarrow> bool \<Rightarrow> string \<Rightarrow> filter_data option \<Rightarrow> bool \<Rightarrow> bool \<Rightarrow>
   error + event list" where
  "cmd_tests w data commit download_logs status_filter filter_data count use_json =
     (case cmd_tests_loop w commit download_logs status_filter filter_data count use_json data
             \<lparr>ta_events = [], filtered_tests = 0, tests = []\<rparr> of
        Inl e \<Rightarrow> Inl e
      | Inr acc \<Rightarrow>
          Inr (ta_events acc @
               (if count \<and> use_json then [Kci_msg_count_json (filtered_tests acc)]
                else if count then [Kci_msg_count (filtered_tests acc)]
                else if use_json then [Kci_msg_tests_json (tests acc)]
                else [])))"

section \<open>Listing builds\<close>







section \<open>Normalising a repository URL\<close>

text \<open>
  \<^verbatim>\<open>repository_url_cleaner\<close> rests on \<^verbatim>\<open>urllib.parse\<close> of the standard library; the
  functions it calls are written out here as CPython 3.11 has them, for ASCII text (for
  other text the library also checks the authority under NFKC normalisation). Where the
  releases of the library differ, the difference is a parameter.
  \<^verbatim>\<open>s.partition(c)\<close> and \<^verbatim>\<open>s.rpartition(c)\<close> are the three helpers below.
\<close>

definition before_first :: "char \<Rightarrow> string \<Rightarrow> string" where
  "before_first c s = takeWhile (\<lambda>x. x \<noteq> c) s"

definition after_first :: "char \<Rightarrow> string \<Rightarrow> string" where
  "after_first c s = drop 1 (dropWhile (\<lambda>x. x \<noteq> c) s)"

definition after_last :: "char \<Rightarrow> string \<Rightarrow> string" where
  "after_last c s = rev (takeWhile (\<lambda>x. x \<noteq> c) (rev s))"

definition scheme_chars :: string where
  "scheme_chars = ''abcdefghijklmnopqrstuvwxyzABCDEFGHIJKLMNOPQRSTUVWXYZ0123456789+-.''"

definition ascii_letters :: string where
  "ascii_letters = ''abcdefghijklmnopqrstuvwxyzABCDEFGHIJKLMNOPQRSTUVWXYZ''"

definition uses_netloc :: "string list" where
  "uses_netloc =
     ['''', ''ftp'', ''http'', ''gopher'', ''nntp'', ''telnet'', ''imap'', ''wais'', ''file'',
      ''mms'', ''https'', ''shttp'', ''snews'', ''prospero'', ''rtsp'', ''rtsps'', ''rtspu'',
      ''rsync'', ''svn'', ''svn+ssh'', ''sftp'', ''nfs'', ''git'', ''git+ssh'', ''ws'', ''wss'']"

text \<open>The named tuple \<^verbatim>\<open>SplitResult\<close>.\<close>

record split_result =
  sr_scheme :: string
  sr_netloc :: string
  sr_path :: string
  sr_query :: string
  sr_fragment :: string

text \<open>
  \<^verbatim>\<open>urlsplit(url)\<close>, in the order of its steps. First, tabs and line breaks are
  removed; releases from 3.11.4 on strip leading C0 control characters and spaces before
  that, older ones do not, which is the parameter \<open>lstrips\<close>.
\<close>

definition strip_unsafe :: "bool \<Rightarrow> string \<Rightarrow> string" where
  "strip_unsafe lstrips url =
     filter (\<lambda>c. c \<notin> set [CHR 0x09, CHR 0x0D, CHR 0x0A])
       (if lstrips then dropWhile (\<lambda>c. (of_char c :: nat) \<le> 32) url else url)"

text \<open>
  The scheme: the text before the first colon, when it is not empty, starts with an ASCII
  letter and consists of \<^verbatim>\<open>scheme_chars\<close>; it is lower-cased.
\<close>

definition split_scheme :: "string \<Rightarrow> string \<times> string" where
  "split_scheme url =
     (let pre = before_first CHR '':'' url
      in if length pre < length url \<and> pre \<noteq> [] \<and> hd pre \<in> set ascii_letters \<and>
            (\<forall>c \<in> set pre. c \<in> set scheme_chars)
         then (lower pre, drop (length pre + 1) url)
         else ([], url))"

text \<open>The authority: after \<^verbatim>\<open>//\<close>, up to the next slash, question mark or hash.\<close>

definition splitnetloc :: "string \<Rightarrow> string \<times> string" where
  "splitnetloc url =
     (if take 2 url = ''//''
      then (takeWhile (\<lambda>c. c \<notin> set ''/?#'') (drop 2 url),
            dropWhile (\<lambda>c. c \<notin> set ''/?#'') (drop 2 url))
      else ([], url))"

text \<open>\<^verbatim>\<open>url, rest = url.split(c, 1)\<close> when \<open>c\<close> is in \<open>url\<close>.\<close>

definition split_off :: "char \<Rightarrow> string \<Rightarrow> string \<times> string" where
  "split_off c url =
     (if c \<in> set url then (before_first c url, after_first c url) else (url, []))"

text \<open>
  \<open>check_bracketed_host\<close> stands for the library's validation of an address in brackets
  (\<^verbatim>\<open>_check_bracketed_host\<close>, which asks the \<^verbatim>\<open>ipaddress\<close> module);
  \<^verbatim>\<open>ValueError\<close> is raised when it fails, and when only one bracket is there.
  Releases before 3.11.4 have no such validation: there it accepts every address.
\<close>

definition urlsplit :: "bool \<Rightarrow> (string \<Rightarrow> bool) \<Rightarrow> string \<Rightarrow> error + split_result" where
  "urlsplit lstrips check_bracketed_host url =
     (let (scheme, url1) = split_scheme (strip_unsafe lstrips url);
          (netloc, url2) = splitnetloc url1;
          (url3, fragment) = split_off CHR ''#'' url2;
          (url4, query) = split_off CHR ''?'' url3
      in if (CHR ''['' \<in> set netloc \<and> CHR '']'' \<notin> set netloc) \<or>
            (CHR '']'' \<in> set netloc \<and> CHR ''['' \<notin> set netloc)
         then Inl (Raised ValueError)
         else if CHR ''['' \<in> set netloc \<and> CHR '']'' \<in> set netloc \<and>
                 \<not> check_bracketed_host (before_first CHR '']'' (after_first CHR ''['' netloc))
         then Inl (Raised ValueError)
         else Inr \<lparr> sr_scheme = scheme, sr_netloc = netloc, sr_path = url4,
                    sr_query = query, sr_fragment = fragment \<rparr>)"

text \<open>The property \<^verbatim>\<open>_hostinfo\<close>: the host and the port text of the authority.\<close>

definition hostinfo :: "split_result \<Rightarrow> string \<times> string option" where
  "hostinfo parsed =
     (let hi = after_last CHR ''@'' (sr_netloc parsed);
          (hostname, port) =
            (if CHR ''['' \<in> set hi
             then (before_first CHR '']'' (after_first CHR ''['' hi),
                   after_first CHR '':'' (after_first CHR '']'' (after_first CHR ''['' hi)))
             else (before_first CHR '':'' hi, after_first CHR '':'' hi))
      in (hostname, if port = [] then None else Some port))"

text \<open>The property \<^verbatim>\<open>hostname\<close>: lower case, but for an IPv6 zone after a percent sign.\<close>

definition hostname :: "split_result \<Rightarrow> string option" where
  "hostname parsed =
     (let h = fst (hostinfo parsed)
      in if h = [] then None
         else Some (lower (before_first CHR ''%'' h) @ dropWhile (\<lambda>x. x \<noteq> CHR ''%'') h))"

definition digit_chars :: string where
  "digit_chars = ''0123456789''"

text \<open>\<^verbatim>\<open>int(port)\<close> for a text of ASCII digits.\<close>

definition int_of_digits :: "string \<Rightarrow> nat" where
  "int_of_digits s = foldl (\<lambda>a c. 10 * a + ((of_char c :: nat) - 48)) 0 s"

text \<open>The property \<^verbatim>\<open>port\<close>.\<close>

definition port :: "split_result \<Rightarrow> error + nat option" where
  "port parsed =
     (case snd (hostinfo parsed) of
        None \<Rightarrow> Inr None
      | Some p \<Rightarrow>
          if (\<forall>c \<in> set p. c \<in> set digit_chars)
          then (if int_of_digits p \<le> 65535 then Inr (Some (int_of_digits p))
                else Inl (Raised ValueError))
          else Inl (Raised ValueError))"

text \<open>The decimal text of a number, as an f-string prints it.\<close>

function str_of_nat :: "nat \<Rightarrow> string" where
  "str_of_nat n =
     (if n < 10 then [digit_chars ! n] else str_of_nat (n div 10) @ [digit_chars ! (n mod 10)])"
  by pat_completeness auto
termination
  by (relation "measure id") auto

declare str_of_nat.simps [simp del]

text \<open>
  \<^verbatim>\<open>urlunsplit((scheme, netloc, url, query, fragment))\<close>; \<open>netloc\<close> may be \<^verbatim>\<open>None\<close>.
  With an authority that is not empty, every release of the library writes two slashes,
  the authority and the path, the path with a leading slash when it is not empty. With an
  empty authority the releases differ, so this part is the parameter \<open>no_netloc\<close>, which
  gives what stands for the path from the scheme and the path. Two rules of CPython follow:
  the one of 3.11.10, and the older one (of 3.11.2 and 3.12.3).
\<close>

definition with_leading_slash :: "string \<Rightarrow> string" where
  "with_leading_slash url = (if url \<noteq> [] \<and> take 1 url \<noteq> ''/'' then ''/'' @ url else url)"

definition urlunsplit ::
  "(string \<Rightarrow> string \<Rightarrow> string) \<Rightarrow> string \<Rightarrow> string option \<Rightarrow> string \<Rightarrow> string \<Rightarrow> string \<Rightarrow>
   string" where
  "urlunsplit no_netloc scheme netloc url query fragment =
     (let nl = (case netloc of None \<Rightarrow> [] | Some a \<Rightarrow> a);
          url1 =
            (if nl \<noteq> [] then ''//'' @ nl @ with_leading_slash url else no_netloc scheme url);
          url2 = (if scheme \<noteq> [] then scheme @ '':'' @ url1 else url1);
          url3 = (if query \<noteq> [] then url2 @ ''?'' @ query else url2)
      in if fragment \<noteq> [] then url3 @ ''#'' @ fragment else url3)"

definition no_netloc_3_11_10 :: "string \<Rightarrow> string \<Rightarrow> string" where
  "no_netloc_3_11_10 scheme url =
     (if (scheme \<noteq> [] \<and> scheme \<in> set uses_netloc) \<or> take 2 url = ''//''
      then ''//'' @ with_leading_slash url
      else url)"

definition no_netloc_older :: "string \<Rightarrow> string \<Rightarrow> string" where
  "no_netloc_older scheme url =
     (if scheme \<noteq> [] \<and> scheme \<in> set uses_netloc \<and> take 2 url \<noteq> ''//''
      then ''//'' @ with_leading_slash url
      else url)"

text \<open>
  The three places where releases of \<^verbatim>\<open>urllib.parse\<close> differ, as one value: whether
  \<^verbatim>\<open>urlsplit\<close> strips leading control characters and spaces, its validation of an
  address in brackets, and what \<^verbatim>\<open>urlunsplit\<close> does with an empty authority.
\<close>

record urllib_parse =
  urlsplit_lstrips :: bool
  urlsplit_check_bracketed_host :: "string \<Rightarrow> bool"
  urlunsplit_no_netloc :: "string \<Rightarrow> string \<Rightarrow> string"

text \<open>
  \<^verbatim>\<open>repository_url_cleaner(url)\<close>. \<^verbatim>\<open>parsed.port\<close> may raise \<^verbatim>\<open>ValueError\<close>;
  \<^verbatim>\<open>authority += ...\<close> raises \<^verbatim>\<open>TypeError\<close> when the host is \<^verbatim>\<open>None\<close>.
\<close>

definition repository_url_cleaner :: "urllib_parse \<Rightarrow> string \<Rightarrow> error + string" where
  "repository_url_cleaner lib url =
     (case urlsplit (urlsplit_lstrips lib) (urlsplit_check_bracketed_host lib) url of
        Inl e \<Rightarrow> Inl e
      | Inr parsed \<Rightarrow>
          (case port parsed of
             Inl e \<Rightarrow> Inl e
           | Inr p \<Rightarrow>
               if p \<noteq> None \<and> p \<noteq> Some 0
               then (case hostname parsed of
                       None \<Rightarrow> Inl (Raised TypeError)
                     | Some authority \<Rightarrow>
                         Inr (urlunsplit (urlunsplit_no_netloc lib) ''https''
                                (Some (authority @ '':'' @ str_of_nat (the p)))
                                (sr_path parsed) (sr_query parsed) (sr_fragment parsed)))
               else Inr (urlunsplit (urlunsplit_no_netloc lib) ''https'' (hostname parsed)
                           (sr_path parsed) (sr_query parsed) (sr_fragment parsed))))"

section \<open>The local checkout\<close>

text \<open>
  What \<^verbatim>\<open>get_folder_repository\<close> asks of its surroundings. Relative paths and the git
  commands are read from the working directory of the process, so each answer depends on
  it (the first argument): whether a path is a directory, whether it exists, the standard
  output of the three git commands, and what
  \<^verbatim>\<open>git_config.get('remote "origin"', "url")\<close> gives after reading a configuration
  file (a file that is missing is read as empty, so the section is missing). The last
  field is the release of \<^verbatim>\<open>urllib.parse\<close> that \<^verbatim>\<open>repository_url_cleaner\<close> runs on.
\<close>

datatype config_lookup = No_section | No_option | Other_config_error | Url string

record checkout =
  os_path_isdir :: "string \<Rightarrow> string \<Rightarrow> bool"
  os_path_exists :: "string \<Rightarrow> string \<Rightarrow> bool"
  git_rev_parse_is_inside_work_tree :: "string \<Rightarrow> string"
  git_config_get_origin_url :: "string \<Rightarrow> string \<Rightarrow> config_lookup"
  git_branch_show_current :: "string \<Rightarrow> string"
  git_rev_parse_HEAD :: "string \<Rightarrow> string"
  urllib :: urllib_parse

text \<open>
  The state of the process that the function changes: its working directory, and the
  lines printed with \<^verbatim>\<open>kci_msg\<close>. The line printed just before an abort is told by
  the abort.
\<close>

record process =
  cwd :: string
  printed :: "event list"

text \<open>\<^verbatim>\<open>os.chdir(path)\<close>: a relative path is taken from the working directory.\<close>

definition os_chdir :: "string \<Rightarrow> process \<Rightarrow> process" where
  "os_chdir path st = st\<lparr>cwd := os_path_join (cwd st) path\<rparr>"

definition kci_msg :: "string \<Rightarrow> process \<Rightarrow> process" where
  "kci_msg line st = st\<lparr>printed := printed st @ [Kci_msg line]\<rparr>"

text \<open>\<^verbatim>\<open>str.strip()\<close> on ASCII text.\<close>

definition whitespace :: string where
  "whitespace =
     [CHR 0x20, CHR 0x09, CHR 0x0A, CHR 0x0B, CHR 0x0C, CHR 0x0D, CHR 0x1C, CHR 0x1D, CHR 0x1E,
      CHR 0x1F]"

definition strip :: "string \<Rightarrow> string" where
  "strip s =
     rev (dropWhile (\<lambda>c. c \<in> set whitespace) (rev (dropWhile (\<lambda>c. c \<in> set whitespace) s)))"

text \<open>The truth value of an optional string: \<^verbatim>\<open>None\<close> and the empty string are false.\<close>

definition truthy :: "string option \<Rightarrow> bool" where
  "truthy s = (case s of None \<Rightarrow> False | Some v \<Rightarrow> v \<noteq> [])"

text \<open>\<^verbatim>\<open>is_inside_work_tree\<close> ignores its argument and asks git in the working directory.\<close>

definition is_inside_work_tree :: "checkout \<Rightarrow> process \<Rightarrow> bool" where
  "is_inside_work_tree env st \<longleftrightarrow> strip (git_rev_parse_is_inside_work_tree env (cwd st)) \<noteq> []"

text \<open>
  The loop \<^verbatim>\<open>while not os.path.exists(dot_git_folder)\<close> of lines 154 to 156, which
  climbs by appending \<^verbatim>\<open>..\<close>. It gives the folder it stops at, and \<open>None\<close> when it
  never stops.
\<close>

partial_function (option) find_dot_git :: "(string \<Rightarrow> bool) \<Rightarrow> string \<Rightarrow> string option" where
  "find_dot_git path_exists current_folder =
     (if path_exists (os_path_join current_folder ''.git'') then Some current_folder
      else find_dot_git path_exists (os_path_join current_folder ''..''))"

text \<open>
  \<^verbatim>\<open>get_folder_repository(git_folder, branch)\<close>. The result is \<open>None\<close> when the loop
  above never stops; otherwise it is the value returned or the failure, with the state of
  the process at that moment. The function has no \<^verbatim>\<open>try\<close>: an exception of
  \<^verbatim>\<open>git_config.get\<close> or of \<^verbatim>\<open>repository_url_cleaner\<close> leaves it at once.
\<close>

definition get_folder_repository ::
  "checkout \<Rightarrow> string option \<Rightarrow> string option \<Rightarrow> process \<Rightarrow>
   ((error + string \<times> string \<times> string) \<times> process) option" where
  "get_folder_repository env git_folder branch st0 =
     (let st1 = kci_msg (''git folder: '' @ (case git_folder of None \<Rightarrow> ''None'' | Some f \<Rightarrow> f)) st0;
          current_folder = (if truthy git_folder then the git_folder else cwd st1);
          previous_folder = cwd st1
      in if \<not> os_path_isdir env (cwd st1) current_folder
         then Some (Inl (Abort Not_a_folder), os_chdir previous_folder st1)
         else
           (let st2 = os_chdir current_folder st1
            in case (if is_inside_work_tree env st2
                     then find_dot_git (os_path_exists env (cwd st2)) current_folder
                     else Some current_folder) of
                 None \<Rightarrow> None
               | Some folder \<Rightarrow>
                   (let dot_git_folder = os_path_join folder ''.git''
                    in if os_path_exists env (cwd st2) dot_git_folder
                       then
                         (case git_config_get_origin_url env (cwd st2)
                                 (os_path_join dot_git_folder ''config'') of
                            No_section \<Rightarrow> Some (Inl (Raised NoSectionError), st2)
                          | No_option \<Rightarrow> Some (Inl (Raised NoOptionError), st2)
                          | Other_config_error \<Rightarrow> Some (Inl (Raised ConfigParserError), st2)
                          | Url u \<Rightarrow>
                              (case repository_url_cleaner (urllib env) u of
                                 Inl e \<Rightarrow> Some (Inl e, st2)
                               | Inr git_url \<Rightarrow>
                                   (let branch_name =
                                          (if truthy branch then the branch
                                           else strip (git_branch_show_current env (cwd st2)));
                                        last_commit_hash = strip (git_rev_parse_HEAD env (cwd st2));
                                        st3 = os_chdir previous_folder st2;
                                        st4 = kci_msg (''tree: '' @ git_url) st3;
                                        st5 = kci_msg (''branch: '' @ branch_name) st4;
                                        st6 = kci_msg (''commit: '' @ last_commit_hash) st5
                                    in Some (Inr (git_url, branch_name, last_commit_hash), st6))))
                       else Some (Inl (Abort Not_a_GIT_folder), os_chdir previous_folder st2))))"

section \<open>Resolving the tree, the branch and the commit\<close>

text \<open>
  \<^verbatim>\<open>for t in trees\<close>: the elements of a list, the keys of a dictionary, the characters
  of a string, and \<^verbatim>\<open>TypeError\<close> for a value that is not iterable.
\<close>

fun py_iter :: "json \<Rightarrow> error + json list" where
  "py_iter (JArr xs) = Inr xs"
| "py_iter (JObj kvs) = Inr (map (\<lambda>kv. JStr (fst kv)) kvs)"
| "py_iter (JStr s) = Inr (map (\<lambda>c. JStr [c]) s)"
| "py_iter JNull = Inl (Raised TypeError)"
| "py_iter (JBool b) = Inl (Raised TypeError)"
| "py_iter (JNum n) = Inl (Raised TypeError)"

definition dashboard_fetch_tree_list :: "network \<Rightarrow> string \<Rightarrow> error + json" where
  "dashboard_fetch_tree_list net origin =
     dashboard_api_fetch net ''tree-fast'' [(''origin'', origin)] 3"

text \<open>The loop of \<^verbatim>\<open>get_latest_commit\<close>; \<^verbatim>\<open>and\<close> does not look at the branch when
  the URL differs.\<close>

fun get_latest_commit_loop :: "json list \<Rightarrow> string \<Rightarrow> string \<Rightarrow> error + json" where
  "get_latest_commit_loop [] giturl branch = Inl (Abort Tree_and_branch_not_found)"
| "get_latest_commit_loop (t # ts) giturl branch =
     (case subscript t ''git_repository_url'' of
        Inl e \<Rightarrow> Inl e
      | Inr u \<Rightarrow>
          if u = JStr giturl
          then (case subscript t ''git_repository_branch'' of
                  Inl e \<Rightarrow> Inl e
                | Inr b \<Rightarrow>
                    if b = JStr branch then subscript t ''git_commit_hash''
                    else get_latest_commit_loop ts giturl branch)
          else get_latest_commit_loop ts giturl branch)"

definition get_latest_commit :: "network \<Rightarrow> string \<Rightarrow> string \<Rightarrow> string \<Rightarrow> error + json" where
  "get_latest_commit net origin giturl branch =
     (case dashboard_fetch_tree_list net origin of
        Inl e \<Rightarrow> Inl e
      | Inr trees \<Rightarrow>
          (case py_iter trees of
             Inl e \<Rightarrow> Inl e
           | Inr ts \<Rightarrow> get_latest_commit_loop ts giturl branch))"

text \<open>
  Lines 508 to 510 of \<^verbatim>\<open>set_giturl_branch_commit\<close>: with \<^verbatim>\<open>latest\<close>, the commit is
  replaced by the latest one of the tree listing.
\<close>

definition with_latest ::
  "network \<Rightarrow> string \<Rightarrow> bool \<Rightarrow> string \<Rightarrow> string \<Rightarrow> json \<Rightarrow> error + string \<times> string \<times> json" where
  "with_latest net origin latest giturl branch commit =
     (if latest
      then (case get_latest_commit net origin giturl branch of
              Inl e \<Rightarrow> Inl e
            | Inr c \<Rightarrow> Inr (giturl, branch, c))
      else Inr (giturl, branch, commit))"

text \<open>
  \<^verbatim>\<open>set_giturl_branch_commit\<close>. The options \<^verbatim>\<open>--giturl\<close>, \<^verbatim>\<open>--branch\<close>,
  \<^verbatim>\<open>--commit\<close> and \<^verbatim>\<open>--git-folder\<close> are \<^verbatim>\<open>None\<close> when they are not given;
  \<^verbatim>\<open>(commit != None) ^ latest\<close> is the exclusive or of two booleans. The commit
  returned is a Python value: a string, or what the tree listing holds.
\<close>

definition set_giturl_branch_commit ::
  "checkout \<Rightarrow> network \<Rightarrow> string \<Rightarrow> string option \<Rightarrow> string option \<Rightarrow> string option \<Rightarrow> bool \<Rightarrow>
   string option \<Rightarrow> process \<Rightarrow> ((error + string \<times> string \<times> json) \<times> process) option" where
  "set_giturl_branch_commit env net origin giturl branch commit latest git_folder st =
     (if \<not> truthy giturl \<or> \<not> truthy branch \<or> \<not> ((commit \<noteq> None) \<noteq> latest)
      then
        (case get_folder_repository env git_folder branch st of
           None \<Rightarrow> None
         | Some (Inl e, st') \<Rightarrow> Some (Inl e, st')
         | Some (Inr (g, b, c), st') \<Rightarrow> Some (with_latest net origin latest g b (JStr c), st'))
      else
        Some (with_latest net origin latest (the giturl) (the branch)
                (case commit of None \<Rightarrow> JNull | Some c \<Rightarrow> JStr c), st))"

section \<open>The filters as the specification words them\<close>

text \<open>The statuses of the data model of tests and boots.\<close>

definition test_statuses :: "string list" where
  "test_statuses = [''PASS'', ''FAIL'', ''ERROR'', ''SKIP'', ''MISS'', ''DONE'', ''NULL'']"

text \<open>The choices of the \<^verbatim>\<open>--status\<close> option (\<^verbatim>\<open>click.Choice\<close>, line 566).\<close>

definition status_choices :: "string list" where
  "status_choices = [''all'', ''pass'', ''fail'', ''inconclusive'']"

text \<open>
  Following the specification: the statuses a status filter keeps. \<open>all\<close> keeps every
  status, \<open>pass\<close> keeps PASS, \<open>fail\<close> keeps FAIL, \<open>inconclusive\<close> keeps the inconclusive
  class.
\<close>

definition status_class :: "string \<Rightarrow> string \<Rightarrow> bool" where
  "status_class filt status \<longleftrightarrow>
     filt = ''all'' \<or>
     (filt = ''pass'' \<and> status = ''PASS'') \<or>
     (filt = ''fail'' \<and> status = ''FAIL'') \<or>
     (filt = ''inconclusive'' \<and> status \<in> set [''ERROR'', ''SKIP'', ''MISS'', ''DONE'', ''NULL''])"

text \<open>
  Following the specification: a record passes the allow-lists when its platform or one of
  its compatible strings is in the hardware list, and its path is in the test list.
\<close>

definition allow_listed :: "string list \<Rightarrow> string list \<Rightarrow> test \<Rightarrow> bool" where
  "allow_listed hardware_list test_list t \<longleftrightarrow>
     (t_misc_platform t \<in> set hardware_list \<or>
      (\<exists>c \<in> set (case t_environment_compatible t of None \<Rightarrow> [] | Some cs \<Rightarrow> cs).
         c \<in> set hardware_list)) \<and>
     t_path t \<in> set test_list"


text \<open>
  The tests the loop of \<^verbatim>\<open>cmd_tests\<close> does not skip, when no lookup in the filter file
  fails: the three \<^verbatim>\<open>continue\<close> checks of lines 436 to 443.
\<close>

definition not_skipped :: "string \<Rightarrow> filter_data option \<Rightarrow> test \<Rightarrow> bool" where
  "not_skipped status_filter filter_data t \<longleftrightarrow>
     \<not> filter_out_by_status (t_status t) status_filter \<and>
     (\<not> truthy_filter filter_data \<or>
      (filter_out_by_hardware t (the filter_data) = Inr False \<and>
       filter_out_by_test t (the filter_data) = Inr False))"



section \<open>Example records\<close>

text \<open>A test with a given path, status and platform, and a build with a given validity.\<close>

definition example_test :: "string \<Rightarrow> string \<Rightarrow> string \<Rightarrow> test" where
  "example_test path status platform =
     \<lparr> t_path = path, t_status = status, t_misc_platform = platform,
       t_environment_misc_platform = platform, t_environment_compatible = None,
       t_config = ''defconfig'', t_architecture = ''x86_64'', t_compiler = ''gcc-12'',
       t_log_url = ''https://storage.example/'' @ path @ ''.log.gz'',
       t_start_time = ''2025-01-01T00:00:00Z'', t_id = ''maestro:'' @ path \<rparr>"


text \<open>A world in which every download fails, and one in which every step succeeds.\<close>

definition offline :: world where
  "offline =
     \<lparr> requests_get_content = (\<lambda>url. None), gzip_decompress = (\<lambda>gz. None),
       write_ok = (\<lambda>name. False), os_getcwd = ''/home/user'' \<rparr>"


text \<open>
  Two releases of \<^verbatim>\<open>urllib.parse\<close>: the rules of 3.11.10 and the older rules, both
  accepting every address in brackets.
\<close>

definition example_urllib :: urllib_parse where
  "example_urllib =
     \<lparr> urlsplit_lstrips = True, urlsplit_check_bracketed_host = (\<lambda>h. True),
       urlunsplit_no_netloc = no_netloc_3_11_10 \<rparr>"

definition example_urllib_older :: urllib_parse where
  "example_urllib_older =
     \<lparr> urlsplit_lstrips = False, urlsplit_check_bracketed_host = (\<lambda>h. True),
       urlunsplit_no_netloc = no_netloc_older \<rparr>"

text \<open>
  A checkout in \<^verbatim>\<open>/srv/linux\<close> whose configuration answers the lookup of the origin
  URL as given, on branch \<^verbatim>\<open>master\<close>.
\<close>

definition example_checkout :: "config_lookup \<Rightarrow> checkout" where
  "example_checkout origin_url =
     \<lparr> os_path_isdir = (\<lambda>c p. p = ''/srv/linux''),
       os_path_exists = (\<lambda>c p. p = ''/srv/linux/.git''),
       git_rev_parse_is_inside_work_tree = (\<lambda>c. if c = ''/srv/linux'' then ''true'' @ [CHR 0x0A] else []),
       git_config_get_origin_url =
         (\<lambda>c p. if p = ''/srv/linux/.git/config'' then origin_url else No_section),
       git_branch_show_current = (\<lambda>c. ''master'' @ [CHR 0x0A]),
       git_rev_parse_HEAD = (\<lambda>c. ''0123abc'' @ [CHR 0x0A]),
       urllib = example_urllib \<rparr>"

text \<open>An entry of the tree listing, and a network that always answers with a given body.\<close>

definition example_tree :: "string \<Rightarrow> string \<Rightarrow> string \<Rightarrow> json" where
  "example_tree url branch hash =
     JObj [(''git_repository_url'', JStr url), (''git_repository_branch'', JStr branch),
           (''git_commit_hash'', JStr hash), (''git_commit_name'', JStr ''v6.12''),
           (''tree_name'', JStr ''mainline''), (''start_time'', JStr ''2025-01-01T00:00:00Z'')]"

definition answering :: "json \<Rightarrow> network" where
  "answering data = (\<lambda>u n. Response 200 (Some data))"

text \<open>
  Following the specification: a tree of the listing matches when its recorded URL and
  branch are the given strings; the listing is well formed when every entry is a
  dictionary with both keys.
\<close>

definition tree_matches :: "string \<Rightarrow> string \<Rightarrow> json \<Rightarrow> bool" where
  "tree_matches giturl branch t \<longleftrightarrow>
     subscript t ''git_repository_url'' = Inr (JStr giturl) \<and>
     subscript t ''git_repository_branch'' = Inr (JStr branch)"

definition is_tree :: "json \<Rightarrow> bool" where
  "is_tree t \<longleftrightarrow>
     (case t of
        JObj kvs \<Rightarrow>
          map_of kvs ''git_repository_url'' \<noteq> None \<and> map_of kvs ''git_repository_branch'' \<noteq> None
      | _ \<Rightarrow> False)"

section \<open>Properties of the retrying fetch client\<close>

lemma str_in_not_abort: "str_in k d \<noteq> Inl (Abort a)"
  by (cases d) simp_all

lemma subscript_not_abort: "subscript d k \<noteq> Inl (Abort a)"
  by (cases d) (simp_all split: option.splits)

lemma fetch_loop_in_loop:
  "retries \<le> m \<Longrightarrow> fst (fetch_loop get m retries n) \<noteq> Inl (Abort Unexpected_failure)"
proof (induction get m retries n rule: fetch_loop.induct)
  case (1 get m retries n)
  show ?case
  proof (cases "get n")
    case Transport_failure
    with "1.prems" show ?thesis by (simp add: fetch_loop.simps [of get m retries n])
  next
    case (Response c b)
    show ?thesis
    proof (cases "c \<in> set RETRY_STATUS_CODES")
      case True
      show ?thesis
      proof (cases "retries + 1 \<le> m")
        case le: True
        from "1.IH" [OF "1.prems" Response True le le]
        show ?thesis using "1.prems" Response True le
          by (simp add: fetch_loop.simps [of get m retries n])
      next
        case False
        then show ?thesis using "1.prems" Response True
          by (simp add: fetch_loop.simps [of get m retries n])
      qed
    next
      case False
      then show ?thesis
        using "1.prems" Response str_in_not_abort [of "''error''"]
          subscript_not_abort [of _ "''error''"]
        by (auto simp add: fetch_loop.simps [of get m retries n]
            split: option.splits sum.splits bool.splits)
    qed
  qed
qed

lemma fetch_loop_retry:
  "is_retryable (get n) \<Longrightarrow> retries + 1 \<le> m \<Longrightarrow>
   fetch_loop get m retries n = fetch_loop get m (retries + 1) (Suc n)"
  by (cases "get n") (simp_all add: is_retryable_def fetch_loop.simps [of get m retries n])

lemma fetch_loop_skip:
  "(\<And>i. i < k \<Longrightarrow> is_retryable (get (n + i))) \<Longrightarrow> retries + int k \<le> m \<Longrightarrow>
   fetch_loop get m retries n = fetch_loop get m (retries + int k) (n + k)"
proof (induction k arbitrary: retries n)
  case 0
  then show ?case by simp
next
  case (Suc k)
  have "is_retryable (get n)" using Suc.prems(1) [of 0] by simp
  then have "fetch_loop get m retries n = fetch_loop get m (retries + 1) (Suc n)"
    using Suc.prems(2) by (intro fetch_loop_retry) simp_all
  also have "\<dots> = fetch_loop get m (retries + 1 + int k) (Suc n + k)"
  proof (rule Suc.IH)
    fix i assume "i < k"
    then show "is_retryable (get (Suc n + i))" using Suc.prems(1) [of "Suc i"] by simp
  next
    show "retries + 1 + int k \<le> m" using Suc.prems(2) by simp
  qed
  finally show ?case by (simp add: add.assoc)
qed

lemma fetch_loop_after_retries:
  "(\<And>i. i < k \<Longrightarrow> is_retryable (get i)) \<Longrightarrow> int k \<le> m \<Longrightarrow>
   fetch_loop get m 0 0 = fetch_loop get m (int k) k"
  using fetch_loop_skip [of k get 0 0 m] by simp

lemma fetch_loop_last_retry:
  "is_retryable (get n) \<Longrightarrow>
   fetch_loop get m m n = (Inl (Abort Failed_after_retries), Suc n)"
  by (cases "get n") (simp_all add: is_retryable_def fetch_loop.simps [of get m m n])

lemma fetch_loop_http_error:
  "get n = Response c b \<Longrightarrow> c \<notin> set RETRY_STATUS_CODES \<Longrightarrow> raise_for_status c \<Longrightarrow> retries \<le> m \<Longrightarrow>
   fetch_loop get m retries n = (Inl (Abort Failed_to_fetch), Suc n)"
  by (simp add: fetch_loop.simps [of get m retries n])

lemma fetch_loop_decoded:
  "get n = Response c (Some d) \<Longrightarrow> c \<notin> set RETRY_STATUS_CODES \<Longrightarrow> \<not> raise_for_status c \<Longrightarrow> retries \<le> m \<Longrightarrow>
   fetch_loop get m retries n =
     (case str_in ''error'' d of
        Inl e \<Rightarrow> (Inl e, Suc n)
      | Inr True \<Rightarrow>
          (case subscript d ''error'' of
             Inl e \<Rightarrow> (Inl e, Suc n)
           | Inr message \<Rightarrow> (Inl (Abort Json_error), Suc n))
      | Inr False \<Rightarrow> (Inr d, Suc n))"
  by (simp add: fetch_loop.simps [of get m retries n])

lemma subscript_present:
  "k \<in> fst ` set kvs \<Longrightarrow> \<exists>v. subscript (JObj kvs) k = Inr v"
  by (cases "map_of kvs k") (simp_all add: map_of_eq_None_iff)

text \<open>
  Claim C10. With \<open>max_retries \<ge> 0\<close>, whatever the network answers,
  \<^verbatim>\<open>dashboard_api_fetch\<close> never reaches the abort after its \<^verbatim>\<open>while\<close> loop
  ("Unexpected failure in API request"): it returns the decoded body or fails inside the loop.
  The function is total, so it always does one of the two.
\<close>

theorem dashboard_api_fetch_stays_in_loop:
  "0 \<le> max_retries \<Longrightarrow>
   dashboard_api_fetch net endpoint params max_retries \<noteq> Inl (Abort Unexpected_failure)"
  unfolding dashboard_api_fetch_def by (rule fetch_loop_in_loop)

theorem dashboard_api_fetch_stays_in_loop_witness:
  "(0::int) \<le> 3 \<and>
   dashboard_api_fetch (\<lambda>u n. Response 503 None) ''tree-fast'' [(''origin'', ''maestro'')] 3
     \<noteq> Inl (Abort Unexpected_failure)"
  using dashboard_api_fetch_stays_in_loop [of 3 "\<lambda>u n. Response 503 None" "''tree-fast''" "[(''origin'', ''maestro'')]"]
  by simp

text \<open>
  Claim C1, as amended. With \<open>max_retries = 3\<close>: when the first three responses have a
  status in the retryable set and the fourth has a status that is neither retryable nor a
  4xx or 5xx and a body that decodes without an \<^verbatim>\<open>error\<close> entry, the body of the fourth
  attempt is returned after exactly 4 requests; when the first four responses are all
  retryable, the fetch aborts with "Failed after 3 retries" after exactly 4 requests; and a
  response with a 4xx or 5xx status outside the retryable set, coming after \<open>k \<le> 3\<close>
  retried responses, aborts at once, after \<open>k + 1\<close> requests. No delay is modelled between
  requests because the loop has none.
\<close>

theorem retrying_fetch_three_retries:
  "((\<forall>i<3. is_retryable (net (endpoint, params) i)) \<and>
    net (endpoint, params) 3 = Response c (Some d) \<and>
    c \<notin> set RETRY_STATUS_CODES \<and> \<not> raise_for_status c \<and> str_in ''error'' d = Inr False \<longrightarrow>
      dashboard_api_fetch net endpoint params 3 = Inr d \<and>
      requests_made net endpoint params 3 = 4) \<and>
   ((\<forall>i<4. is_retryable (net (endpoint, params) i)) \<longrightarrow>
      dashboard_api_fetch net endpoint params 3 = Inl (Abort Failed_after_retries) \<and>
      requests_made net endpoint params 3 = 4) \<and>
   (k \<le> 3 \<and> (\<forall>i<k. is_retryable (net (endpoint, params) i)) \<and>
    net (endpoint, params) k = Response c' b \<and>
    c' \<notin> set RETRY_STATUS_CODES \<and> 400 \<le> c' \<and> c' < 600 \<longrightarrow>
      dashboard_api_fetch net endpoint params 3 = Inl (Abort Failed_to_fetch) \<and>
      requests_made net endpoint params 3 = Suc k)"
proof (intro conjI impI)
  let ?get = "net (endpoint, params)"
  {
    assume a: "(\<forall>i<3. is_retryable (?get i)) \<and> ?get 3 = Response c (Some d) \<and>
      c \<notin> set RETRY_STATUS_CODES \<and> \<not> raise_for_status c \<and> str_in ''error'' d = Inr False"
    then have "fetch_loop ?get 3 0 0 = fetch_loop ?get 3 (int 3) 3"
      by (intro fetch_loop_after_retries) simp_all
    also have "\<dots> = (Inr d, 4)"
      using a fetch_loop_decoded [of ?get 3 c d 3 3] by simp
    finally have r: "fetch_loop ?get 3 0 0 = (Inr d, 4)" .
    show "dashboard_api_fetch net endpoint params 3 = Inr d"
      by (simp add: dashboard_api_fetch_def r)
    show "requests_made net endpoint params 3 = 4"
      by (simp add: requests_made_def r)
  }
  {
    assume a: "\<forall>i<4. is_retryable (?get i)"
    then have "fetch_loop ?get 3 0 0 = fetch_loop ?get 3 (int 3) 3"
      by (intro fetch_loop_after_retries) simp_all
    also have "\<dots> = (Inl (Abort Failed_after_retries), 4)"
      using a fetch_loop_last_retry [of ?get 3 3] by simp
    finally have r: "fetch_loop ?get 3 0 0 = (Inl (Abort Failed_after_retries), 4)" .
    show "dashboard_api_fetch net endpoint params 3 = Inl (Abort Failed_after_retries)"
      by (simp add: dashboard_api_fetch_def r)
    show "requests_made net endpoint params 3 = 4"
      by (simp add: requests_made_def r)
  }
  {
    assume a: "k \<le> 3 \<and> (\<forall>i<k. is_retryable (?get i)) \<and> ?get k = Response c' b \<and>
      c' \<notin> set RETRY_STATUS_CODES \<and> 400 \<le> c' \<and> c' < 600"
    then have "fetch_loop ?get 3 0 0 = fetch_loop ?get 3 (int k) k"
      by (intro fetch_loop_after_retries) simp_all
    also have "\<dots> = (Inl (Abort Failed_to_fetch), Suc k)"
      using a fetch_loop_http_error [of ?get k c' b "int k" 3] by (simp add: raise_for_status_def)
    finally have r: "fetch_loop ?get 3 0 0 = (Inl (Abort Failed_to_fetch), Suc k)" .
    show "dashboard_api_fetch net endpoint params 3 = Inl (Abort Failed_to_fetch)"
      by (simp add: dashboard_api_fetch_def r)
    show "requests_made net endpoint params 3 = Suc k"
      by (simp add: requests_made_def r)
  }
qed


theorem retrying_fetch_three_retries_witness:
  "(let net = (\<lambda>u n. if n < 3 then Response 503 None
                       else Response 200 (Some (JObj [(''builds'', JArr [])])))
    in dashboard_api_fetch net ''tree/abc/builds'' [(''origin'', ''maestro'')] 3
         = Inr (JObj [(''builds'', JArr [])]) \<and>
       requests_made net ''tree/abc/builds'' [(''origin'', ''maestro'')] 3 = 4) \<and>
   (let net = (\<lambda>u n. Response 503 None)
    in dashboard_api_fetch net ''tree/abc/builds'' [(''origin'', ''maestro'')] 3
         = Inl (Abort Failed_after_retries) \<and>
       requests_made net ''tree/abc/builds'' [(''origin'', ''maestro'')] 3 = 4) \<and>
   (let net = (\<lambda>u n. if n < 2 then Response 503 None else Response 404 None)
    in dashboard_api_fetch net ''tree/abc/builds'' [(''origin'', ''maestro'')] 3
         = Inl (Abort Failed_to_fetch) \<and>
       requests_made net ''tree/abc/builds'' [(''origin'', ''maestro'')] 3 = 3)"
  using
    retrying_fetch_three_retries
      [of "\<lambda>u n. if n < 3 then Response 503 None
                  else Response 200 (Some (JObj [(''builds'', JArr [])]))"
          "''tree/abc/builds''" "[(''origin'', ''maestro'')]" 200 "JObj [(''builds'', JArr [])]"]
    retrying_fetch_three_retries
      [of "\<lambda>u n. Response 503 None" "''tree/abc/builds''" "[(''origin'', ''maestro'')]"]
    retrying_fetch_three_retries
      [of "\<lambda>u n. if n < 2 then Response 503 None else Response 404 None"
          "''tree/abc/builds''" "[(''origin'', ''maestro'')]" _ _ 2 404 None]
  by (simp add: is_retryable_def RETRY_STATUS_CODES_def raise_for_status_def)

text \<open>
  Claim C1 as stated fails for a status that is not 2xx, not retryable and not 4xx or 5xx:
  \<^verbatim>\<open>raise_for_status\<close> lets a 300 response pass and its decoded body is returned.
\<close>

theorem status_300_is_returned:
  "dashboard_api_fetch (\<lambda>u n. Response 300 (Some (JObj [(''builds'', JArr [])])))
     ''tree/abc/builds'' [(''origin'', ''maestro'')] 3 = Inr (JObj [(''builds'', JArr [])])"
  by (simp add: dashboard_api_fetch_def fetch_loop.simps [of _ 3 0 0] RETRY_STATUS_CODES_def
      raise_for_status_def)

text \<open>
  Claim C4 as stated fails: a response with status 503 whose body is
  \<^verbatim>\<open>{"error": "bad request"}\<close> is retried, and the body of the next response is returned.
\<close>

theorem error_body_with_retryable_status_is_retried:
  "(let net = (\<lambda>u n. if n = 0 then Response 503 (Some (JObj [(''error'', JStr ''bad request'')]))
                       else Response 200 (Some (JObj [(''builds'', JArr [])])))
    in dashboard_api_fetch net ''tree/abc/builds'' [(''origin'', ''maestro'')] 3
         = Inr (JObj [(''builds'', JArr [])]) \<and>
       requests_made net ''tree/abc/builds'' [(''origin'', ''maestro'')] 3 = 2)"
  by (simp add: dashboard_api_fetch_def requests_made_def fetch_loop.simps [of _ 3 0 0]
      fetch_loop.simps [of _ 3 1 "Suc 0"] RETRY_STATUS_CODES_def raise_for_status_def)

text \<open>
  Claim C4, as amended. A response whose body decodes to an object with an \<^verbatim>\<open>error\<close>
  key, reached after \<open>k \<le> max_retries\<close> retried responses, aborts with the "json error"
  abort and no further request when its status is neither retryable nor 4xx or 5xx. With
  a 4xx or 5xx status outside the retryable set the fetch aborts as a failed request
  instead, and with a retryable status on the last allowed attempt it aborts with
  "Failed after N retries"; the body is not looked at in either case.
\<close>

theorem error_key_aborts:
  "(int k \<le> max_retries \<and> (\<forall>i<k. is_retryable (net (endpoint, params) i)) \<and>
    net (endpoint, params) k = Response c (Some (JObj kvs)) \<and> ''error'' \<in> fst ` set kvs \<and>
    c \<notin> set RETRY_STATUS_CODES \<and> \<not> raise_for_status c \<longrightarrow>
      dashboard_api_fetch net endpoint params max_retries = Inl (Abort Json_error) \<and>
      requests_made net endpoint params max_retries = Suc k) \<and>
   (int k \<le> max_retries \<and> (\<forall>i<k. is_retryable (net (endpoint, params) i)) \<and>
    net (endpoint, params) k = Response c (Some (JObj kvs)) \<and> ''error'' \<in> fst ` set kvs \<and>
    c \<notin> set RETRY_STATUS_CODES \<and> raise_for_status c \<longrightarrow>
      dashboard_api_fetch net endpoint params max_retries = Inl (Abort Failed_to_fetch) \<and>
      requests_made net endpoint params max_retries = Suc k) \<and>
   (int k = max_retries \<and> (\<forall>i<k. is_retryable (net (endpoint, params) i)) \<and>
    net (endpoint, params) k = Response c (Some (JObj kvs)) \<and> ''error'' \<in> fst ` set kvs \<and>
    c \<in> set RETRY_STATUS_CODES \<longrightarrow>
      dashboard_api_fetch net endpoint params max_retries = Inl (Abort Failed_after_retries) \<and>
      requests_made net endpoint params max_retries = Suc k)"
proof -
  let ?get = "net (endpoint, params)"
  have skip: "fetch_loop ?get max_retries 0 0 = fetch_loop ?get max_retries (int k) k"
    if "int k \<le> max_retries" "\<forall>i<k. is_retryable (?get i)"
    using that by (intro fetch_loop_after_retries) simp_all
  have 1: "fetch_loop ?get max_retries 0 0 = (Inl (Abort Json_error), Suc k)"
    if "int k \<le> max_retries" "\<forall>i<k. is_retryable (?get i)"
       "?get k = Response c (Some (JObj kvs))" "''error'' \<in> fst ` set kvs"
       "c \<notin> set RETRY_STATUS_CODES" "\<not> raise_for_status c"
    using skip [OF that(1,2)] fetch_loop_decoded [of ?get k c "JObj kvs" "int k" max_retries]
      subscript_present [OF that(4)] that
    by auto
  have 2: "fetch_loop ?get max_retries 0 0 = (Inl (Abort Failed_to_fetch), Suc k)"
    if "int k \<le> max_retries" "\<forall>i<k. is_retryable (?get i)"
       "?get k = Response c (Some (JObj kvs))"
       "c \<notin> set RETRY_STATUS_CODES" "raise_for_status c"
    using skip [OF that(1,2)] fetch_loop_http_error [of ?get k c _ "int k" max_retries] that
    by simp
  have 3: "fetch_loop ?get max_retries 0 0 = (Inl (Abort Failed_after_retries), Suc k)"
    if "int k = max_retries" "\<forall>i<k. is_retryable (?get i)"
       "?get k = Response c (Some (JObj kvs))" "c \<in> set RETRY_STATUS_CODES"
  proof -
    have "is_retryable (?get k)" using that(3,4) by (simp add: is_retryable_def)
    from fetch_loop_last_retry [of ?get k max_retries] this skip that(1,2)
    show ?thesis by simp
  qed
  show ?thesis
    using 1 2 3 by (simp add: dashboard_api_fetch_def requests_made_def)
qed

theorem error_key_aborts_witness:
  "(let net = (\<lambda>u n. Response 200 (Some (JObj [(''error'', JStr ''bad request'')])))
    in dashboard_api_fetch net ''tree/abc/builds'' [(''origin'', ''maestro'')] 3
         = Inl (Abort Json_error) \<and>
       requests_made net ''tree/abc/builds'' [(''origin'', ''maestro'')] 3 = 1) \<and>
   (let net = (\<lambda>u n. Response 400 (Some (JObj [(''error'', JStr ''bad request'')])))
    in dashboard_api_fetch net ''tree/abc/builds'' [(''origin'', ''maestro'')] 3
         = Inl (Abort Failed_to_fetch) \<and>
       requests_made net ''tree/abc/builds'' [(''origin'', ''maestro'')] 3 = 1) \<and>
   (let net = (\<lambda>u n. Response 503 (Some (JObj [(''error'', JStr ''bad request'')])))
    in dashboard_api_fetch net ''tree/abc/builds'' [(''origin'', ''maestro'')] 3
         = Inl (Abort Failed_after_retries) \<and>
       requests_made net ''tree/abc/builds'' [(''origin'', ''maestro'')] 3 = 4)"
  using
    error_key_aborts
      [of 0 3 "\<lambda>u n. Response 200 (Some (JObj [(''error'', JStr ''bad request'')]))"
          "''tree/abc/builds''" "[(''origin'', ''maestro'')]" 200
          "[(''error'', JStr ''bad request'')]"]
    error_key_aborts
      [of 0 3 "\<lambda>u n. Response 400 (Some (JObj [(''error'', JStr ''bad request'')]))"
          "''tree/abc/builds''" "[(''origin'', ''maestro'')]" 400
          "[(''error'', JStr ''bad request'')]"]
    error_key_aborts
      [of 3 3 "\<lambda>u n. Response 503 (Some (JObj [(''error'', JStr ''bad request'')]))"
          "''tree/abc/builds''" "[(''origin'', ''maestro'')]" 503
          "[(''error'', JStr ''bad request'')]"]
  by (simp add: is_retryable_def RETRY_STATUS_CODES_def raise_for_status_def)

section \<open>Properties of the listings\<close>

lemma cmd_tests_loop_filter:
  assumes "\<not> truthy_filter fd \<or>
     (map_of (the fd) ''hardware'' \<noteq> None \<and> map_of (the fd) ''test'' \<noteq> None)"
  shows "cmd_tests_loop w c dl sf fd cnt uj ts acc =
         Inr (foldl (cmd_tests_body w c dl cnt uj) acc (filter (not_skipped sf fd) ts))"
proof (induction ts arbitrary: acc)
  case Nil
  show ?case by simp
next
  case (Cons t ts)
  show ?case
  proof (cases "truthy_filter fd")
    case False
    then show ?thesis by (simp add: Cons.IH not_skipped_def)
  next
    case True
    with assms obtain hw tp where k: "map_of (the fd) ''hardware'' = Some hw"
      "map_of (the fd) ''test'' = Some tp" by auto
    obtain bh where h: "filter_out_by_hardware t (the fd) = Inr bh"
      using k by (simp add: filter_out_by_hardware_def)
    obtain bt where t: "filter_out_by_test t (the fd) = Inr bt"
      using k by (simp add: filter_out_by_test_def)
    show ?thesis using True h t
      by (cases bh; cases bt) (simp_all add: Cons.IH not_skipped_def)
  qed
qed

lemma foldl_body_count:
  "foldl (cmd_tests_body w c dl True uj) acc ts =
   acc\<lparr>ta_events := ta_events acc @ concat (map (\<lambda>t. snd (test_log w c dl t)) ts),
       filtered_tests := filtered_tests acc + length ts\<rparr>"
  by (induction ts arbitrary: acc) (simp_all add: cmd_tests_body_def split: prod.splits)

lemma foldl_body_json:
  "foldl (cmd_tests_body w c dl False True) acc ts =
   acc\<lparr>ta_events := ta_events acc @ concat (map (\<lambda>t. snd (test_log w c dl t)) ts),
       tests := tests acc @ map (\<lambda>t. create_test_json t (fst (test_log w c dl t))) ts\<rparr>"
  by (induction ts arbitrary: acc) (simp_all add: cmd_tests_body_def split: prod.splits)

lemma foldl_body_text:
  "foldl (cmd_tests_body w c dl False False) acc ts =
   acc\<lparr>ta_events := ta_events acc @
      concat (map (\<lambda>t. snd (test_log w c dl t) @ print_test t (fst (test_log w c dl t))) ts)\<rparr>"
  by (induction ts arbitrary: acc) (simp_all add: cmd_tests_body_def split: prod.splits)

lemma cmd_tests_count:
  assumes "\<not> truthy_filter fd \<or>
     (map_of (the fd) ''hardware'' \<noteq> None \<and> map_of (the fd) ''test'' \<noteq> None)"
  shows "cmd_tests w data c dl sf fd True uj =
     Inr (concat (map (\<lambda>t. snd (test_log w c dl t)) (filter (not_skipped sf fd) data)) @
          [if uj then Kci_msg_count_json (length (filter (not_skipped sf fd) data))
           else Kci_msg_count (length (filter (not_skipped sf fd) data))])"
  by (simp add: cmd_tests_def cmd_tests_loop_filter [OF assms] foldl_body_count)

lemma cmd_tests_json:
  assumes "\<not> truthy_filter fd \<or>
     (map_of (the fd) ''hardware'' \<noteq> None \<and> map_of (the fd) ''test'' \<noteq> None)"
  shows "cmd_tests w data c dl sf fd False True =
     Inr (concat (map (\<lambda>t. snd (test_log w c dl t)) (filter (not_skipped sf fd) data)) @
          [Kci_msg_tests_json
             (map (\<lambda>t. create_test_json t (fst (test_log w c dl t)))
                (filter (not_skipped sf fd) data))])"
  by (simp add: cmd_tests_def cmd_tests_loop_filter [OF assms] foldl_body_json)

lemma cmd_tests_text:
  assumes "\<not> truthy_filter fd \<or>
     (map_of (the fd) ''hardware'' \<noteq> None \<and> map_of (the fd) ''test'' \<noteq> None)"
  shows "cmd_tests w data c dl sf fd False False =
     Inr (concat (map (\<lambda>t. snd (test_log w c dl t) @ print_test t (fst (test_log w c dl t)))
            (filter (not_skipped sf fd) data)))"
  by (simp add: cmd_tests_def cmd_tests_loop_filter [OF assms] foldl_body_text)

lemma cmd_tests_cong:
  assumes "\<not> truthy_filter fd \<or>
     (map_of (the fd) ''hardware'' \<noteq> None \<and> map_of (the fd) ''test'' \<noteq> None)"
   and "\<not> truthy_filter fd' \<or>
     (map_of (the fd') ''hardware'' \<noteq> None \<and> map_of (the fd') ''test'' \<noteq> None)"
   and "filter (not_skipped sf fd) data = filter (not_skipped sf' fd') data'"
  shows "cmd_tests w data c dl sf fd cnt uj = cmd_tests w data' c dl sf' fd' cnt uj"
  by (simp add: cmd_tests_def cmd_tests_loop_filter [OF assms(1)]
      cmd_tests_loop_filter [OF assms(2)] assms(3))

lemma lower_statuses:
  "lower ''PASS'' = ''pass''" "lower ''FAIL'' = ''fail''" "lower ''ERROR'' = ''error''"
  "lower ''SKIP'' = ''skip''" "lower ''MISS'' = ''miss''" "lower ''DONE'' = ''done''"
  "lower ''NULL'' = ''null''"
  by (simp_all add: lower_def lower_char_def)

lemma filter_out_by_status_class:
  assumes "status \<in> set test_statuses" "filt \<in> set status_choices"
  shows "filter_out_by_status status filt \<longleftrightarrow> \<not> status_class filt status"
proof -
  from assms(2) consider "filt = ''all''" | "filt = ''pass''" | "filt = ''fail''"
    | "filt = ''inconclusive''"
    by (auto simp add: status_choices_def)
  then show ?thesis
  proof cases
    case 1
    then show ?thesis by (simp add: filter_out_by_status_def status_class_def)
  next
    case 2
    from assms(1) have "status = ''PASS'' \<or> status = ''FAIL'' \<or> status = ''ERROR'' \<or>
      status = ''SKIP'' \<or> status = ''MISS'' \<or> status = ''DONE'' \<or> status = ''NULL''"
      by (simp add: test_statuses_def)
    then show ?thesis unfolding 2
      by (elim disjE) (simp_all add: filter_out_by_status_def status_class_def lower_statuses)
  next
    case 3
    from assms(1) have "status = ''PASS'' \<or> status = ''FAIL'' \<or> status = ''ERROR'' \<or>
      status = ''SKIP'' \<or> status = ''MISS'' \<or> status = ''DONE'' \<or> status = ''NULL''"
      by (simp add: test_statuses_def)
    then show ?thesis unfolding 3
      by (elim disjE) (simp_all add: filter_out_by_status_def status_class_def lower_statuses)
  next
    case 4
    from assms(1) have "status = ''PASS'' \<or> status = ''FAIL'' \<or> status = ''ERROR'' \<or>
      status = ''SKIP'' \<or> status = ''MISS'' \<or> status = ''DONE'' \<or> status = ''NULL''"
      by (simp add: test_statuses_def)
    then show ?thesis unfolding 4
      by (elim disjE) (simp_all add: filter_out_by_status_def status_class_def lower_statuses)
  qed
qed

lemma not_skipped_all: "not_skipped ''all'' None t"
  by (simp add: not_skipped_def filter_out_by_status_def truthy_filter_def)


lemma not_skipped_None:
  "not_skipped sf None t \<longleftrightarrow> \<not> filter_out_by_status (t_status t) sf"
  by (simp add: not_skipped_def truthy_filter_def)

lemma not_skipped_empty:
  "not_skipped sf (Some []) t \<longleftrightarrow> \<not> filter_out_by_status (t_status t) sf"
  by (simp add: not_skipped_def truthy_filter_def)

lemma filter_out_by_hardware_listed:
  "map_of fd ''hardware'' = Some hw \<Longrightarrow>
   filter_out_by_hardware t fd =
     Inr (\<not> (t_misc_platform t \<in> set hw \<or>
              (\<exists>c \<in> set (case t_environment_compatible t of None \<Rightarrow> [] | Some cs \<Rightarrow> cs).
                 c \<in> set hw)))"
  by (auto simp add: filter_out_by_hardware_def split: option.splits)

lemma filter_out_by_test_listed:
  "map_of fd ''test'' = Some tp \<Longrightarrow> filter_out_by_test t fd = Inr (t_path t \<notin> set tp)"
  by (simp add: filter_out_by_test_def)

lemma not_skipped_Some:
  assumes "map_of fd ''hardware'' = Some hw" "map_of fd ''test'' = Some tp"
  shows "not_skipped sf (Some fd) t \<longleftrightarrow>
         allow_listed hw tp t \<and> \<not> filter_out_by_status (t_status t) sf"
proof -
  have "fd \<noteq> []" using assms(1) by auto
  then show ?thesis
    by (auto simp add: not_skipped_def truthy_filter_def allow_listed_def
        filter_out_by_hardware_listed [OF assms(1)] filter_out_by_test_listed [OF assms(2)])
qed

lemma test_log_off: "test_log w c False t = (t_log_url t, [])"
  by (simp add: test_log_def)

lemma count_by_status:
  "length (filter (not_skipped sf None) data) =
   length (filter (\<lambda>s. \<not> filter_out_by_status s sf) (map t_status data))"
proof -
  have "filter (not_skipped sf None) data =
        filter (\<lambda>t. \<not> filter_out_by_status (t_status t) sf) data"
    by (rule filter_cong) (simp_all add: not_skipped_None)
  then show ?thesis by (simp add: filter_map comp_def)
qed

text \<open>
  Claim C3. For every list of test or boot records whose statuses are statuses of the data
  model and every choice of \<^verbatim>\<open>--status\<close>, \<^verbatim>\<open>cmd_tests\<close> without a filter file does
  with the list what it does, under \<^verbatim>\<open>all\<close>, with the records whose status is in the
  class of the filter: every status for \<^verbatim>\<open>all\<close>, PASS for \<^verbatim>\<open>pass\<close>, FAIL for
  \<^verbatim>\<open>fail\<close>, and ERROR, SKIP, MISS, DONE, NULL for \<^verbatim>\<open>inconclusive\<close>. Under
  \<^verbatim>\<open>all\<close> every record is listed and counted. For ten tests with statuses PASS (4),
  FAIL (3), ERROR (2) and SKIP (1), count mode gives 3 for \<^verbatim>\<open>inconclusive\<close>, 4 for
  \<^verbatim>\<open>pass\<close> and 10 for \<^verbatim>\<open>all\<close>.
\<close>

theorem status_filter_keeps_its_class:
  "((\<forall>t \<in> set data. t_status t \<in> set test_statuses) \<and> filt \<in> set status_choices \<longrightarrow>
      cmd_tests w data commit dl filt None count use_json =
      cmd_tests w (filter (\<lambda>t. status_class filt (t_status t)) data) commit dl ''all'' None
        count use_json) \<and>
   cmd_tests w data commit False ''all'' None False True =
     Inr [Kci_msg_tests_json (map (\<lambda>t. create_test_json t (t_log_url t)) data)] \<and>
   cmd_tests w data commit False ''all'' None True False = Inr [Kci_msg_count (length data)] \<and>
   (map t_status data =
      [''PASS'', ''PASS'', ''PASS'', ''PASS'', ''FAIL'', ''FAIL'', ''FAIL'',
       ''ERROR'', ''ERROR'', ''SKIP''] \<longrightarrow>
      cmd_tests w data commit False ''inconclusive'' None True False = Inr [Kci_msg_count 3] \<and>
      cmd_tests w data commit False ''pass'' None True False = Inr [Kci_msg_count 4] \<and>
      cmd_tests w data commit False ''all'' None True False = Inr [Kci_msg_count 10])"
proof (intro conjI impI)
  have none: "\<not> truthy_filter None \<or>
     (map_of (the None) ''hardware'' \<noteq> None \<and> map_of (the None) ''test'' \<noteq> (None :: string list option))"
    by (simp add: truthy_filter_def)
  {
    assume a: "(\<forall>t \<in> set data. t_status t \<in> set test_statuses) \<and> filt \<in> set status_choices"
    have "filter (not_skipped filt None) data =
          filter (\<lambda>t. status_class filt (t_status t)) data"
      using a by (intro filter_cong) (simp_all add: not_skipped_None filter_out_by_status_class)
    moreover have "filter (not_skipped ''all'' None)
        (filter (\<lambda>t. status_class filt (t_status t)) data) =
        filter (\<lambda>t. status_class filt (t_status t)) data"
      by (simp add: not_skipped_all)
    ultimately show "cmd_tests w data commit dl filt None count use_json =
      cmd_tests w (filter (\<lambda>t. status_class filt (t_status t)) data) commit dl ''all'' None
        count use_json"
      by (intro cmd_tests_cong [OF none none]) simp
  }
  show "cmd_tests w data commit False ''all'' None False True =
     Inr [Kci_msg_tests_json (map (\<lambda>t. create_test_json t (t_log_url t)) data)]"
    by (simp add: cmd_tests_json [OF none] not_skipped_all test_log_off)
  show all: "cmd_tests w data commit False ''all'' None True False = Inr [Kci_msg_count (length data)]"
    by (simp add: cmd_tests_count [OF none] not_skipped_all test_log_off)
  {
    assume s: "map t_status data =
      [''PASS'', ''PASS'', ''PASS'', ''PASS'', ''FAIL'', ''FAIL'', ''FAIL'',
       ''ERROR'', ''ERROR'', ''SKIP'']"
    have "length (filter (not_skipped ''inconclusive'' None) data) = 3"
      unfolding count_by_status s by (simp add: filter_out_by_status_def lower_statuses)
    then show "cmd_tests w data commit False ''inconclusive'' None True False = Inr [Kci_msg_count 3]"
      by (simp add: cmd_tests_count [OF none] test_log_off)
    have "length (filter (not_skipped ''pass'' None) data) = 4"
      unfolding count_by_status s by (simp add: filter_out_by_status_def lower_statuses)
    then show "cmd_tests w data commit False ''pass'' None True False = Inr [Kci_msg_count 4]"
      by (simp add: cmd_tests_count [OF none] test_log_off)
    have "length data = 10" using arg_cong [OF s, of length] by simp
    then show "cmd_tests w data commit False ''all'' None True False = Inr [Kci_msg_count 10]"
      using all by simp
  }
qed


theorem status_filter_keeps_its_class_witness:
  "(let data = [example_test ''boot'' ''PASS'' ''qemu-x86'', example_test ''ltp'' ''PASS'' ''qemu-x86'',
                example_test ''kselftest'' ''PASS'' ''qemu-x86'', example_test ''kunit'' ''PASS'' ''qemu-x86'',
                example_test ''boot'' ''FAIL'' ''qemu-arm'', example_test ''ltp'' ''FAIL'' ''qemu-arm'',
                example_test ''kunit'' ''FAIL'' ''qemu-arm'', example_test ''boot'' ''ERROR'' ''rk3399'',
                example_test ''ltp'' ''ERROR'' ''rk3399'', example_test ''kunit'' ''SKIP'' ''rk3399'']
    in cmd_tests offline data ''abc'' False ''inconclusive'' None True False = Inr [Kci_msg_count 3] \<and>
       cmd_tests offline data ''abc'' False ''pass'' None True False = Inr [Kci_msg_count 4] \<and>
       cmd_tests offline data ''abc'' False ''all'' None True False = Inr [Kci_msg_count 10] \<and>
       cmd_tests offline data ''abc'' False ''fail'' None False True =
         cmd_tests offline [example_test ''boot'' ''FAIL'' ''qemu-arm'',
                            example_test ''ltp'' ''FAIL'' ''qemu-arm'',
                            example_test ''kunit'' ''FAIL'' ''qemu-arm'']
           ''abc'' False ''all'' None False True)"
  using
    status_filter_keeps_its_class
      [of "[example_test ''boot'' ''PASS'' ''qemu-x86'', example_test ''ltp'' ''PASS'' ''qemu-x86'',
            example_test ''kselftest'' ''PASS'' ''qemu-x86'', example_test ''kunit'' ''PASS'' ''qemu-x86'',
            example_test ''boot'' ''FAIL'' ''qemu-arm'', example_test ''ltp'' ''FAIL'' ''qemu-arm'',
            example_test ''kunit'' ''FAIL'' ''qemu-arm'', example_test ''boot'' ''ERROR'' ''rk3399'',
            example_test ''ltp'' ''ERROR'' ''rk3399'', example_test ''kunit'' ''SKIP'' ''rk3399'']"
          "''fail''" offline "''abc''" False False True]
  by (simp add: example_test_def test_statuses_def status_choices_def status_class_def)

text \<open>
  Claim C5 as stated fails for a filter file with only the \<^verbatim>\<open>hardware\<close> key: the claim
  lets a record on an allowed platform survive, but \<^verbatim>\<open>filter_out_by_test\<close> looks up
  \<^verbatim>\<open>filter_data["test"]\<close> and raises \<^verbatim>\<open>KeyError\<close>.
\<close>

theorem missing_test_key_raises:
  "cmd_tests offline [example_test ''boot'' ''PASS'' ''qemu-x86''] ''abc'' False ''all''
     (Some [(''hardware'', [''qemu-x86''])]) True False = Inl (Raised KeyError)"
  by (simp add: cmd_tests_def example_test_def filter_out_by_status_def truthy_filter_def
      filter_out_by_hardware_def filter_out_by_test_def)

text \<open>
  Claim C5, as amended. With a filter file that has both keys, \<^verbatim>\<open>cmd_tests\<close> does with
  the list what it does, without a filter file, with the records whose platform or one of
  whose compatible strings is in the \<^verbatim>\<open>hardware\<close> list and whose path is in the
  \<^verbatim>\<open>test\<close> list. Without a filter file, or with an empty mapping, no record is dropped
  by the allow-lists. With hardware \<open>[qemu-x86]\<close> and test \<open>[boot]\<close>, of the records
  (qemu-x86, boot), (qemu-arm, boot) and (qemu-x86, network) only the first is listed.
\<close>

theorem allow_lists_filter:
  "(map_of fd ''hardware'' = Some hw \<and> map_of fd ''test'' = Some tp \<longrightarrow>
      cmd_tests w data commit dl filt (Some fd) count use_json =
      cmd_tests w (filter (allow_listed hw tp) data) commit dl filt None count use_json) \<and>
   cmd_tests w data commit dl filt (Some []) count use_json =
     cmd_tests w data commit dl filt None count use_json \<and>
   cmd_tests w data commit False ''all'' None False True =
     Inr [Kci_msg_tests_json (map (\<lambda>t. create_test_json t (t_log_url t)) data)] \<and>
   (t_misc_platform t1 = ''qemu-x86'' \<and> t_path t1 = ''boot'' \<and>
    t_misc_platform t2 = ''qemu-arm'' \<and> t_path t2 = ''boot'' \<and>
    t_environment_compatible t2 = None \<and>
    t_misc_platform t3 = ''qemu-x86'' \<and> t_path t3 = ''network'' \<longrightarrow>
      cmd_tests w [t1, t2, t3] commit False ''all''
        (Some [(''hardware'', [''qemu-x86'']), (''test'', [''boot''])]) False True =
      Inr [Kci_msg_tests_json [create_test_json t1 (t_log_url t1)]])"
proof (intro conjI impI)
  have none: "\<not> truthy_filter None \<or>
     (map_of (the None) ''hardware'' \<noteq> None \<and> map_of (the None) ''test'' \<noteq> (None :: string list option))"
    by (simp add: truthy_filter_def)
  have empty: "\<not> truthy_filter (Some []) \<or>
     (map_of (the (Some [])) ''hardware'' \<noteq> None \<and> map_of (the (Some [])) ''test'' \<noteq> (None :: string list option))"
    by (simp add: truthy_filter_def)
  {
    assume k: "map_of fd ''hardware'' = Some hw \<and> map_of fd ''test'' = Some tp"
    then have some: "\<not> truthy_filter (Some fd) \<or>
      (map_of (the (Some fd)) ''hardware'' \<noteq> None \<and> map_of (the (Some fd)) ''test'' \<noteq> None)"
      by simp
    have "filter (not_skipped filt (Some fd)) data =
          filter (not_skipped filt None) (filter (allow_listed hw tp) data)"
    proof -
      have "filter (not_skipped filt (Some fd)) data =
            filter (\<lambda>t. allow_listed hw tp t \<and> not_skipped filt None t) data"
        using k by (intro filter_cong) (simp_all add: not_skipped_Some [of fd hw tp] not_skipped_None)
      then show ?thesis by simp
    qed
    then show "cmd_tests w data commit dl filt (Some fd) count use_json =
      cmd_tests w (filter (allow_listed hw tp) data) commit dl filt None count use_json"
      by (rule cmd_tests_cong [OF some none])
  }
  have "filter (not_skipped filt (Some [])) data = filter (not_skipped filt None) data"
    by (rule filter_cong) (simp_all add: not_skipped_None not_skipped_empty)
  then show "cmd_tests w data commit dl filt (Some []) count use_json =
     cmd_tests w data commit dl filt None count use_json"
    by (rule cmd_tests_cong [OF empty none])
  show "cmd_tests w data commit False ''all'' None False True =
     Inr [Kci_msg_tests_json (map (\<lambda>t. create_test_json t (t_log_url t)) data)]"
    by (simp add: cmd_tests_json [OF none] not_skipped_all test_log_off)
  {
    let ?fd = "[(''hardware'', [''qemu-x86'']), (''test'', [''boot''])]"
    assume a: "t_misc_platform t1 = ''qemu-x86'' \<and> t_path t1 = ''boot'' \<and>
      t_misc_platform t2 = ''qemu-arm'' \<and> t_path t2 = ''boot'' \<and>
      t_environment_compatible t2 = None \<and>
      t_misc_platform t3 = ''qemu-x86'' \<and> t_path t3 = ''network''"
    have some: "\<not> truthy_filter (Some ?fd) \<or>
      (map_of (the (Some ?fd)) ''hardware'' \<noteq> None \<and> map_of (the (Some ?fd)) ''test'' \<noteq> None)"
      by simp
    have ns: "not_skipped ''all'' (Some ?fd) t \<longleftrightarrow> allow_listed [''qemu-x86''] [''boot''] t" for t
      by (simp add: not_skipped_Some [of ?fd "[''qemu-x86'']" "[''boot'']"]
          filter_out_by_status_def)
    have "filter (not_skipped ''all'' (Some ?fd)) [t1, t2, t3] = [t1]"
      using a by (simp add: ns allow_listed_def)
    then show "cmd_tests w [t1, t2, t3] commit False ''all'' (Some ?fd) False True =
      Inr [Kci_msg_tests_json [create_test_json t1 (t_log_url t1)]]"
      by (simp add: cmd_tests_json [OF some] test_log_off)
  }
qed

theorem allow_lists_filter_witness:
  "cmd_tests offline
     [example_test ''boot'' ''PASS'' ''qemu-x86'', example_test ''boot'' ''PASS'' ''qemu-arm'',
      example_test ''network'' ''PASS'' ''qemu-x86'']
     ''abc'' False ''all'' (Some [(''hardware'', [''qemu-x86'']), (''test'', [''boot''])])
     False True =
   Inr [Kci_msg_tests_json
          [create_test_json (example_test ''boot'' ''PASS'' ''qemu-x86'')
             ''https://storage.example/boot.log.gz'']] \<and>
   cmd_tests offline
     [example_test ''boot'' ''PASS'' ''qemu-x86'', example_test ''boot'' ''PASS'' ''qemu-arm'',
      example_test ''network'' ''PASS'' ''qemu-x86'']
     ''abc'' False ''all'' (Some [(''hardware'', [''qemu-x86'']), (''test'', [''boot''])])
     True False =
   cmd_tests offline
     (filter (allow_listed [''qemu-x86''] [''boot''])
        [example_test ''boot'' ''PASS'' ''qemu-x86'', example_test ''boot'' ''PASS'' ''qemu-arm'',
         example_test ''network'' ''PASS'' ''qemu-x86''])
     ''abc'' False ''all'' None True False"
  using
    allow_lists_filter
      [of "[(''hardware'', [''qemu-x86'']), (''test'', [''boot''])]" "[''qemu-x86'']" "[''boot'']"
          offline
          "[example_test ''boot'' ''PASS'' ''qemu-x86'', example_test ''boot'' ''PASS'' ''qemu-arm'',
            example_test ''network'' ''PASS'' ''qemu-x86'']"
          "''abc''" False "''all''" True False
          "example_test ''boot'' ''PASS'' ''qemu-x86''" "example_test ''boot'' ''PASS'' ''qemu-arm''"
          "example_test ''network'' ''PASS'' ''qemu-x86''"]
  by (simp add: example_test_def)





















section \<open>Properties of the URL normalisation\<close>



















lemmas url_eval =
  repository_url_cleaner_def urlsplit_def strip_unsafe_def split_scheme_def splitnetloc_def
  split_off_def before_first_def after_first_def after_last_def ascii_letters_def
  scheme_chars_def lower_def lower_char_def port_def hostinfo_def hostname_def digit_chars_def
  int_of_digits_def urlunsplit_def uses_netloc_def with_leading_slash_def
  no_netloc_3_11_10_def no_netloc_older_def example_urllib_def example_urllib_older_def




section \<open>Properties of the local checkout and of the resolution\<close>

lemmas checkout_eval =
  get_folder_repository_def example_checkout_def kci_msg_def os_chdir_def os_path_join_def
  truthy_def is_inside_work_tree_def strip_def whitespace_def

text \<open>
  Claim C7 asks that \<^verbatim>\<open>get_folder_repository\<close> puts the working directory back on
  every way out, raised errors included. The three ways out written in the function do
  (the two lemmas after the theorem are the return and an abort), but an exception goes
  past them: in a checkout with no \<^verbatim>\<open>origin\<close> remote, \<^verbatim>\<open>git_config.get\<close> raises
  \<^verbatim>\<open>NoSectionError\<close> and the process stays in the checkout.
\<close>

theorem working_directory_left_changed:
  "get_folder_repository (example_checkout No_section) (Some ''/srv/linux'') None
     \<lparr>cwd = ''/home/user'', printed = []\<rparr> =
   Some (Inl (Raised NoSectionError),
         \<lparr>cwd = ''/srv/linux'', printed = [Kci_msg ''git folder: /srv/linux'']\<rparr>)"
  by (simp add: checkout_eval find_dot_git.simps)

lemma working_directory_restored_on_return:
  "get_folder_repository (example_checkout (Url ''git://git.example.org/linux.git''))
     (Some ''/srv/linux'') None \<lparr>cwd = ''/home/user'', printed = []\<rparr> =
   Some (Inr (''https://git.example.org/linux.git'', ''master'', ''0123abc''),
         \<lparr>cwd = ''/home/user'',
          printed = [Kci_msg ''git folder: /srv/linux'',
                     Kci_msg ''tree: https://git.example.org/linux.git'',
                     Kci_msg ''branch: master'', Kci_msg ''commit: 0123abc'']\<rparr>)"
  by (simp add: checkout_eval find_dot_git.simps url_eval Let_def)


lemma working_directory_restored_on_abort:
  "get_folder_repository (example_checkout No_section) (Some ''/srv/missing'') None
     \<lparr>cwd = ''/home/user'', printed = []\<rparr> =
   Some (Inl (Abort Not_a_folder),
         \<lparr>cwd = ''/home/user'', printed = [Kci_msg ''git folder: /srv/missing'']\<rparr>)"
  by (simp add: checkout_eval)

lemma get_latest_commit_loop_find:
  "\<forall>t \<in> set ts. is_tree t \<Longrightarrow>
   get_latest_commit_loop ts giturl branch =
     (case find (tree_matches giturl branch) ts of
        None \<Rightarrow> Inl (Abort Tree_and_branch_not_found)
      | Some t \<Rightarrow> subscript t ''git_commit_hash'')"
proof (induction ts)
  case Nil
  show ?case by simp
next
  case (Cons t ts)
  from Cons.prems obtain kvs u b where t: "t = JObj kvs"
    "map_of kvs ''git_repository_url'' = Some u" "map_of kvs ''git_repository_branch'' = Some b"
    by (auto simp add: is_tree_def split: json.splits)
  from Cons have IH: "get_latest_commit_loop ts giturl branch =
     (case find (tree_matches giturl branch) ts of
        None \<Rightarrow> Inl (Abort Tree_and_branch_not_found)
      | Some t \<Rightarrow> subscript t ''git_commit_hash'')" by simp
  show ?case
  proof -
    have tm: "tree_matches giturl branch (JObj kvs) \<longleftrightarrow> u = JStr giturl \<and> b = JStr branch"
      by (simp add: t tree_matches_def)
    show ?thesis unfolding t(1) by (auto simp add: t(2,3) IH tm)
  qed
qed

lemma with_latest_True:
  assumes "dashboard_fetch_tree_list net origin = Inr (JArr trees)" "\<forall>t \<in> set trees. is_tree t"
  shows "with_latest net origin True g b c =
     (case find (tree_matches g b) trees of
        None \<Rightarrow> Inl (Abort Tree_and_branch_not_found)
      | Some t \<Rightarrow> (case subscript t ''git_commit_hash'' of Inl e \<Rightarrow> Inl e | Inr h \<Rightarrow> Inr (g, b, h)))"
  using assms
  by (simp add: with_latest_def get_latest_commit_def get_latest_commit_loop_find
      split: option.splits)


lemmas resolver_eval =
  set_giturl_branch_commit_def with_latest_def get_latest_commit_def dashboard_fetch_tree_list_def
  dashboard_api_fetch_def answering_def example_tree_def RETRY_STATUS_CODES_def
  raise_for_status_def truthy_def

text \<open>
  Claim C2 as stated fails where it has the trees matched after URL normalisation: a
  supplied URL is compared as it is given. With \<^verbatim>\<open>--giturl http://git.example.org/linux.git\<close>
  and a listing that records the tree under its normalised URL, no tree is found.
\<close>

theorem supplied_giturl_is_compared_as_given:
  "repository_url_cleaner example_urllib ''http://git.example.org/linux.git'' =
     Inr ''https://git.example.org/linux.git'' \<and>
   set_giturl_branch_commit (example_checkout No_section)
     (answering (JArr [example_tree ''https://git.example.org/linux.git'' ''master'' ''0123abc'']))
     ''maestro'' (Some ''http://git.example.org/linux.git'') (Some ''master'') None True None
     \<lparr>cwd = ''/home/user'', printed = []\<rparr> =
   Some (Inl (Abort Tree_and_branch_not_found), \<lparr>cwd = ''/home/user'', printed = []\<rparr>)"
proof
  show "repository_url_cleaner example_urllib ''http://git.example.org/linux.git'' =
     Inr ''https://git.example.org/linux.git''"
    by (simp add: url_eval Let_def)
  show "set_giturl_branch_commit (example_checkout No_section)
     (answering (JArr [example_tree ''https://git.example.org/linux.git'' ''master'' ''0123abc'']))
     ''maestro'' (Some ''http://git.example.org/linux.git'') (Some ''master'') None True None
     \<lparr>cwd = ''/home/user'', printed = []\<rparr> =
   Some (Inl (Abort Tree_and_branch_not_found), \<lparr>cwd = ''/home/user'', printed = []\<rparr>)"
    by (simp add: resolver_eval fetch_loop.simps [of _ 3 0 0])
qed

text \<open>
  Claim C2, as amended. When \<^verbatim>\<open>giturl\<close> and \<^verbatim>\<open>branch\<close> are both given and not
  empty, and exactly one of "a commit is given" and \<^verbatim>\<open>latest\<close> holds,
  \<^verbatim>\<open>set_giturl_branch_commit\<close> keeps the given URL and branch and leaves the process as
  it is (the checkout is not looked at); in every other case the three values come from
  \<^verbatim>\<open>get_folder_repository\<close>. After that, without \<^verbatim>\<open>latest\<close> the commit stays; with
  \<^verbatim>\<open>latest\<close>, when the tree listing of the origin is a list of trees, the commit
  becomes the \<^verbatim>\<open>git_commit_hash\<close> of the first tree whose recorded URL and branch are
  equal, as strings, to the resolved ones, and the call aborts with "Tree and branch not
  found" when there is none. Only a URL that came from the checkout has been normalised.
\<close>

theorem set_giturl_branch_commit_gate:
  "(truthy giturl \<and> truthy branch \<and> ((commit \<noteq> None) \<noteq> latest) \<longrightarrow>
      set_giturl_branch_commit env net origin giturl branch commit latest git_folder st =
        Some (with_latest net origin latest (the giturl) (the branch)
                (case commit of None \<Rightarrow> JNull | Some c \<Rightarrow> JStr c), st)) \<and>
   (\<not> (truthy giturl \<and> truthy branch \<and> ((commit \<noteq> None) \<noteq> latest)) \<longrightarrow>
      set_giturl_branch_commit env net origin giturl branch commit latest git_folder st =
        (case get_folder_repository env git_folder branch st of
           None \<Rightarrow> None
         | Some (Inl e, st') \<Rightarrow> Some (Inl e, st')
         | Some (Inr (g, b, c), st') \<Rightarrow> Some (with_latest net origin latest g b (JStr c), st'))) \<and>
   with_latest net origin False g b c = Inr (g, b, c) \<and>
   (dashboard_fetch_tree_list net origin = Inr (JArr trees) \<and> (\<forall>t \<in> set trees. is_tree t) \<longrightarrow>
      with_latest net origin True g b c =
        (case find (tree_matches g b) trees of
           None \<Rightarrow> Inl (Abort Tree_and_branch_not_found)
         | Some t \<Rightarrow>
             (case subscript t ''git_commit_hash'' of
                Inl e \<Rightarrow> Inl e
              | Inr h \<Rightarrow> Inr (g, b, h))))"
proof (intro conjI impI)
  show "set_giturl_branch_commit env net origin giturl branch commit latest git_folder st =
        Some (with_latest net origin latest (the giturl) (the branch)
                (case commit of None \<Rightarrow> JNull | Some c \<Rightarrow> JStr c), st)"
    if "truthy giturl \<and> truthy branch \<and> ((commit \<noteq> None) \<noteq> latest)"
    using that unfolding set_giturl_branch_commit_def by (simp only: simp_thms if_False)
  show "set_giturl_branch_commit env net origin giturl branch commit latest git_folder st =
        (case get_folder_repository env git_folder branch st of
           None \<Rightarrow> None
         | Some (Inl e, st') \<Rightarrow> Some (Inl e, st')
         | Some (Inr (g, b, c), st') \<Rightarrow> Some (with_latest net origin latest g b (JStr c), st'))"
    if "\<not> (truthy giturl \<and> truthy branch \<and> ((commit \<noteq> None) \<noteq> latest))"
  proof -
    from that have "\<not> truthy giturl \<or> \<not> truthy branch \<or> \<not> ((commit \<noteq> None) \<noteq> latest)"
      by blast
    then show ?thesis unfolding set_giturl_branch_commit_def by (simp only: if_True)
  qed
  show "with_latest net origin False g b c = Inr (g, b, c)"
    by (simp add: with_latest_def)
  show "with_latest net origin True g b c =
        (case find (tree_matches g b) trees of
           None \<Rightarrow> Inl (Abort Tree_and_branch_not_found)
         | Some t \<Rightarrow>
             (case subscript t ''git_commit_hash'' of
                Inl e \<Rightarrow> Inl e
              | Inr h \<Rightarrow> Inr (g, b, h)))"
    if "dashboard_fetch_tree_list net origin = Inr (JArr trees) \<and> (\<forall>t \<in> set trees. is_tree t)"
    using that with_latest_True by blast
qed


theorem set_giturl_branch_commit_gate_witness:
  "set_giturl_branch_commit (example_checkout No_section)
     (answering (JArr [example_tree ''https://git.example.org/other.git'' ''master'' ''fff0000'',
                       example_tree ''https://git.example.org/linux.git'' ''master'' ''0123abc'',
                       example_tree ''https://git.example.org/linux.git'' ''master'' ''9999999'']))
     ''maestro'' (Some ''https://git.example.org/linux.git'') (Some ''master'') None True None
     \<lparr>cwd = ''/home/user'', printed = []\<rparr> =
   Some (Inr (''https://git.example.org/linux.git'', ''master'', JStr ''0123abc''),
         \<lparr>cwd = ''/home/user'', printed = []\<rparr>) \<and>
   set_giturl_branch_commit (example_checkout No_section) (answering (JArr []))
     ''maestro'' (Some ''https://git.example.org/linux.git'') (Some ''master'') (Some ''v6.12'')
     False None \<lparr>cwd = ''/home/user'', printed = []\<rparr> =
   Some (Inr (''https://git.example.org/linux.git'', ''master'', JStr ''v6.12''),
         \<lparr>cwd = ''/home/user'', printed = []\<rparr>) \<and>
   set_giturl_branch_commit (example_checkout (Url ''git://git.example.org/linux.git''))
     (answering (JArr [])) ''maestro'' (Some ''https://git.example.org/linux.git'') None
     (Some ''v6.12'') False (Some ''/srv/linux'') \<lparr>cwd = ''/home/user'', printed = []\<rparr> =
   Some (Inr (''https://git.example.org/linux.git'', ''master'', JStr ''0123abc''),
         \<lparr>cwd = ''/home/user'',
          printed = [Kci_msg ''git folder: /srv/linux'',
                     Kci_msg ''tree: https://git.example.org/linux.git'',
                     Kci_msg ''branch: master'', Kci_msg ''commit: 0123abc'']\<rparr>)"
  using
    set_giturl_branch_commit_gate
      [of "Some ''https://git.example.org/linux.git''" "Some ''master''" None True
          "example_checkout No_section"
          "answering (JArr [example_tree ''https://git.example.org/other.git'' ''master'' ''fff0000'',
                       example_tree ''https://git.example.org/linux.git'' ''master'' ''0123abc'',
                       example_tree ''https://git.example.org/linux.git'' ''master'' ''9999999''])"
          "''maestro''" None "\<lparr>cwd = ''/home/user'', printed = []\<rparr>"
          "''https://git.example.org/linux.git''" "''master''" JNull
          "[example_tree ''https://git.example.org/other.git'' ''master'' ''fff0000'',
            example_tree ''https://git.example.org/linux.git'' ''master'' ''0123abc'',
            example_tree ''https://git.example.org/linux.git'' ''master'' ''9999999'']"]
    set_giturl_branch_commit_gate
      [of "Some ''https://git.example.org/linux.git''" "Some ''master''" "Some ''v6.12''" False
          "example_checkout No_section" "answering (JArr [])"
          "''maestro''" None "\<lparr>cwd = ''/home/user'', printed = []\<rparr>"
          "''https://git.example.org/linux.git''" "''master''" "JStr ''v6.12''" "[]"]
    set_giturl_branch_commit_gate
      [of "Some ''https://git.example.org/linux.git''" None "Some ''v6.12''" False
          "example_checkout (Url ''git://git.example.org/linux.git'')" "answering (JArr [])"
          "''maestro''" "Some ''/srv/linux''" "\<lparr>cwd = ''/home/user'', printed = []\<rparr>"
          "''https://git.example.org/linux.git''" "''master''" "JStr ''0123abc''" "[]"]
  by (simp add: resolver_eval fetch_loop.simps [of _ 3 0 0] is_tree_def tree_matches_def
      checkout_eval find_dot_git.simps url_eval Let_def)

end
